theory Spec2Isabelle
  imports Complex_Main "HOL-Library.Word"
begin

section \<open>Binary framing protocol\<close>

text \<open>
  The terminal bridge of \<^verbatim>\<open>server.ts\<close> and of the client's terminal panel speaks a
  binary protocol over WebSocket messages: the first byte of a message is its kind, the
  rest is the payload.
  \<^verbatim>\<open>
  const DATA_BYTE = 0x00;
  const CONTROL_BYTE = 0x01;
  \<close>
\<close>

type_synonym byte = "8 word"
type_synonym bytes = "byte list"

definition DATA_BYTE :: byte where
  "DATA_BYTE = 0x00"

definition CONTROL_BYTE :: byte where
  "CONTROL_BYTE = 0x01"

text \<open>
  Text. A JavaScript string is represented by its UTF-8 encoding, so that
  \<^verbatim>\<open>Buffer.byteLength(s)\<close> is the length of the list and \<^verbatim>\<open>buf.write(s, off)\<close>
  copies the list into the buffer. Every string the server writes to a socket comes from
  \<^verbatim>\<open>JSON.stringify\<close> or from the PTY's decoded output, and has such an encoding.
\<close>

type_synonym jsstring = bytes

definition ascii :: "string \<Rightarrow> jsstring" where
  "ascii s = map of_char s"

subsection \<open>Buffers\<close>

text \<open>\<^verbatim>\<open>Buffer.alloc(n)\<close>: n zero bytes.\<close>

definition Buffer_alloc :: "nat \<Rightarrow> bytes" where
  "Buffer_alloc n = replicate n 0"

text \<open>
  \<^verbatim>\<open>buf[i] = b\<close>: an index assignment outside a Buffer's range leaves the bytes as
  they are (typed arrays do not grow), which is what \<open>xs[i := b]\<close> does.
\<close>

definition Buffer_set :: "bytes \<Rightarrow> nat \<Rightarrow> byte \<Rightarrow> bytes" where
  "Buffer_set buf i b = buf[i := b]"

text \<open>
  \<^verbatim>\<open>buf.write(s, off)\<close>: the bytes of \<open>s\<close> from offset \<open>off\<close> on, as many as fit;
  the length of the buffer never changes.
\<close>

definition Buffer_write :: "bytes \<Rightarrow> jsstring \<Rightarrow> nat \<Rightarrow> bytes" where
  "Buffer_write buf s off =
     take off buf @ take (length buf - off) s @ drop (off + length s) buf"

text \<open>
  The body shared by \<^verbatim>\<open>sendControl\<close> and \<^verbatim>\<open>sendData\<close>:
  \<^verbatim>\<open>
  const payload = Buffer.alloc(1 + Buffer.byteLength(msg));
  payload[0] = CONTROL_BYTE;        // DATA_BYTE in sendData
  payload.write(msg, 1);
  \<close>
\<close>

definition encode :: "byte \<Rightarrow> jsstring \<Rightarrow> bytes" where
  "encode kind msg =
     (let payload = Buffer_alloc (1 + length msg);
          payload = Buffer_set payload 0 kind
      in Buffer_write payload msg 1)"

text \<open>
  The head of both message handlers:
  \<^verbatim>\<open>
  if (buf.length === 0) return;
  const type = buf[0];
  const body = buf.subarray(1);
  \<close>
  \<open>None\<close> is the early return.
\<close>

definition decode :: "bytes \<Rightarrow> (byte \<times> bytes) option" where
  "decode buf = (if length buf = 0 then None else Some (buf ! 0, drop 1 buf))"

subsection \<open>Decoding text\<close>

text \<open>
  \<^verbatim>\<open>body.toString()\<close> decodes the bytes as UTF-8 and never fails: a well-formed sequence
  is kept, and each maximal ill-formed part becomes U+FFFD, whose encoding is
  \<open>EF BF BD\<close>. \<open>utf8_lead\<close> gives, for a lead byte, how many continuation bytes
  follow and the range of the first of them.
\<close>

definition REPLACEMENT :: jsstring where
  "REPLACEMENT = [0xEF, 0xBF, 0xBD]"

definition utf8_lead :: "byte \<Rightarrow> (nat \<times> byte \<times> byte) option" where
  "utf8_lead b =
     (if 0xC2 \<le> b \<and> b \<le> 0xDF then Some (1, 0x80, 0xBF)
      else if b = 0xE0 then Some (2, 0xA0, 0xBF)
      else if b = 0xED then Some (2, 0x80, 0x9F)
      else if 0xE1 \<le> b \<and> b \<le> 0xEF then Some (2, 0x80, 0xBF)
      else if b = 0xF0 then Some (3, 0x90, 0xBF)
      else if 0xF1 \<le> b \<and> b \<le> 0xF3 then Some (3, 0x80, 0xBF)
      else if b = 0xF4 then Some (3, 0x80, 0x8F)
      else None)"

text \<open>
  \<open>utf8_scan seen needed lo hi input\<close>: \<open>seen\<close> holds the bytes of the sequence being
  read, \<open>needed\<close> the number of continuation bytes still missing, \<open>lo\<close> and \<open>hi\<close>
  the range allowed for the next one. A byte that cannot continue the sequence ends it
  with U+FFFD and is read again as the start of a new one.
\<close>

fun utf8_scan :: "bytes \<Rightarrow> nat \<Rightarrow> byte \<Rightarrow> byte \<Rightarrow> bytes \<Rightarrow> jsstring" where
  "utf8_scan seen 0 lo hi [] = []"
| "utf8_scan seen (Suc n) lo hi [] = REPLACEMENT"
| "utf8_scan seen 0 lo hi (b # bs) =
     (if b < 0x80 then b # utf8_scan [] 0 0x80 0xBF bs
      else case utf8_lead b of
             Some (n, l, h) \<Rightarrow> utf8_scan [b] n l h bs
           | None \<Rightarrow> REPLACEMENT @ utf8_scan [] 0 0x80 0xBF bs)"
| "utf8_scan seen (Suc n) lo hi (b # bs) =
     (if lo \<le> b \<and> b \<le> hi
      then (if n = 0 then seen @ [b] @ utf8_scan [] 0 0x80 0xBF bs
            else utf8_scan (seen @ [b]) n 0x80 0xBF bs)
      else REPLACEMENT @ utf8_scan [] 0 0x80 0xBF (b # bs))"

definition toString :: "bytes \<Rightarrow> jsstring" where
  "toString body = utf8_scan [] 0 0x80 0xBF body"




section \<open>JavaScript values\<close>

text \<open>
  What \<^verbatim>\<open>JSON.parse\<close> returns, and \<^verbatim>\<open>undefined\<close> for a property that is not
  there. A number read from JSON is a double: a rational (\<open>-0\<close> and \<open>0\<close> are both
  \<open>0\<close> here, and both are falsy) or, on overflow, an infinity; \<^verbatim>\<open>NaN\<close> has no JSON
  text. An object is the list of its own properties. The strings inside a parsed value
  (property names and string values) are written as they are spelt; the handlers only
  compare them with literals.
\<close>

datatype jsnum = Finite rat | PosInfinity | NegInfinity

datatype jsval =
    JUndefined
  | JNull
  | JBool bool
  | JNum jsnum
  | JStr string
  | JArr "jsval list"
  | JObj "(string \<times> jsval) list"

datatype exn = SyntaxError | TypeError | Error

text \<open>
  \<^verbatim>\<open>JSON.parse\<close> belongs to the runtime: the handlers take it as a parameter, a
  function from the text to the parsed value or to the \<^verbatim>\<open>SyntaxError\<close> it throws.
  \<open>Error\<close> is the plain \<^verbatim>\<open>Error\<close> a library throws.
\<close>

type_synonym json_parser = "jsstring \<Rightarrow> exn + jsval"

text \<open>
  Reading a property \<^verbatim>\<open>msg.name\<close>: a \<^verbatim>\<open>TypeError\<close> on \<^verbatim>\<open>null\<close> and
  \<^verbatim>\<open>undefined\<close>, the own property of an object, and \<^verbatim>\<open>undefined\<close> otherwise.
  The handlers read \<^verbatim>\<open>type\<close>, \<^verbatim>\<open>cols\<close>, \<^verbatim>\<open>rows\<close> and \<^verbatim>\<open>file\<close>, which no
  number, boolean, string, array or object prototype defines. \<open>properties\<close> does the
  check once and returns the lookup.
\<close>

definition own_property :: "(string \<times> jsval) list \<Rightarrow> string \<Rightarrow> jsval" where
  "own_property kvs name = (case map_of kvs name of None \<Rightarrow> JUndefined | Some v \<Rightarrow> v)"

fun properties :: "jsval \<Rightarrow> exn + (string \<Rightarrow> jsval)" where
  "properties JUndefined = Inl TypeError"
| "properties JNull = Inl TypeError"
| "properties (JObj kvs) = Inr (own_property kvs)"
| "properties v = Inr (\<lambda>name. JUndefined)"

text \<open>The values that count as true in \<^verbatim>\<open>a && b\<close> and \<^verbatim>\<open>if (a)\<close>.\<close>

fun truthy :: "jsval \<Rightarrow> bool" where
  "truthy JUndefined = False"
| "truthy JNull = False"
| "truthy (JBool b) = b"
| "truthy (JNum n) = (n \<noteq> Finite 0)"
| "truthy (JStr s) = (s \<noteq> [])"
| "truthy (JArr vs) = True"
| "truthy (JObj kvs) = True"

text \<open>
  \<^verbatim>\<open>JSON.stringify({ type: t })\<close> for a type name without special characters, and
  \<^verbatim>\<open>JSON.stringify({ type: "resize", cols: c, rows: r })\<close> for two numbers given by
  their decimal digits.
\<close>

definition json_type :: "string \<Rightarrow> jsstring" where
  \<open>json_type t = ascii (''{"type":"'' @ t @ ''"}'')\<close>

definition json_resize :: "string \<Rightarrow> string \<Rightarrow> jsstring" where
  \<open>json_resize c r = ascii (''{"type":"resize","cols":'' @ c @ '',"rows":'' @ r @ ''}'')\<close>

section \<open>The server: PTY session manager and connection router\<close>

subsection \<open>State\<close>

text \<open>
  A WebSocket as the server sees it: its \<^verbatim>\<open>readyState\<close> and the messages handed to
  \<^verbatim>\<open>ws.send\<close>, in order.
\<close>

datatype ready_state = CONNECTING | OPEN | CLOSING | CLOSED

record websocket =
  readyState :: ready_state
  sent :: "bytes list"

text \<open>
  A PTY handle of node-pty, with the fields and methods the server uses: \<^verbatim>\<open>pid\<close>,
  the dimensions set by \<^verbatim>\<open>resize(cols, rows)\<close>, the strings passed to \<^verbatim>\<open>write\<close>,
  whether \<^verbatim>\<open>kill()\<close> was called, and whether the process has exited and its
  \<^verbatim>\<open>onExit\<close> listener has run. \<^verbatim>\<open>kill()\<close> only signals the process: the process
  exits on its own schedule, and the listener runs later, from the event loop.
\<close>

record pty =
  pid :: nat
  cols :: jsval
  rows :: jsval
  written :: "jsstring list"
  killed :: bool
  exited :: bool

text \<open>
  The module-level variables
  \<^verbatim>\<open>
  let currentPty: pty.IPty | null = null;
  let activeWs: WebSocket | null = null;
  \<close>
  are references: an index into the PTY handles created so far (\<open>ptys\<close>) and an index
  into the connections accepted so far (\<open>conns\<close>).
\<close>

record server =
  currentPty :: "nat option"
  activeWs :: "nat option"
  ptys :: "pty list"
  conns :: "websocket list"

definition init :: server where
  "init = \<lparr>currentPty = None, activeWs = None, ptys = [], conns = []\<rparr>"

subsection \<open>Sending\<close>

definition ws_send :: "server \<Rightarrow> nat \<Rightarrow> bytes \<Rightarrow> server" where
  "ws_send st w payload =
     st\<lparr>conns := (conns st)[w := (conns st ! w)\<lparr>sent := sent (conns st ! w) @ [payload]\<rparr>]\<rparr>"

definition sendControl :: "server \<Rightarrow> nat \<Rightarrow> jsstring \<Rightarrow> server" where
  "sendControl st w msg =
     (if readyState (conns st ! w) \<noteq> OPEN then st
      else ws_send st w (encode CONTROL_BYTE msg))"

definition sendData :: "server \<Rightarrow> nat \<Rightarrow> jsstring \<Rightarrow> server" where
  "sendData st w data =
     (if readyState (conns st ! w) \<noteq> OPEN then st
      else ws_send st w (encode DATA_BYTE data))"

subsection \<open>Session manager\<close>

text \<open>
  \<^verbatim>\<open>pty.spawn(shell, [...], { name: "xterm-256color", cols: 80, rows: 24, ... })\<close>
  either throws or returns a handle; \<open>spawned\<close> is the process id of the handle, or
  \<open>None\<close> when it throws.
\<close>

definition new_pty :: "nat \<Rightarrow> pty" where
  "new_pty p = \<lparr>pid = p, cols = JNum (Finite 80), rows = JNum (Finite 24), written = [],
                killed = False, exited = False\<rparr>"

definition spawnSession :: "nat option \<Rightarrow> server \<Rightarrow> server" where
  "spawnSession spawned st =
     (if currentPty st \<noteq> None then st
      else case spawned of
             None \<Rightarrow>
               (case activeWs st of
                  Some a \<Rightarrow> sendControl st a (json_type ''exit'')
                | None \<Rightarrow> st)
           | Some p \<Rightarrow>
               st\<lparr>ptys := ptys st @ [new_pty p], currentPty := Some (length (ptys st))\<rparr>)"

text \<open>The listener registered with \<^verbatim>\<open>currentPty.onData\<close>.\<close>

definition onData :: "server \<Rightarrow> jsstring \<Rightarrow> server" where
  "onData st data =
     (case activeWs st of Some a \<Rightarrow> sendData st a data | None \<Rightarrow> st)"

text \<open>
  The listener registered with \<^verbatim>\<open>currentPty.onExit\<close>. It assigns the variable
  \<^verbatim>\<open>currentPty\<close>, whichever handle that holds at the time.
\<close>

definition onExit :: "server \<Rightarrow> server" where
  "onExit st =
     (let st = st\<lparr>currentPty := None\<rparr>
      in case activeWs st of
           Some a \<Rightarrow> sendControl st a (json_type ''exit'')
         | None \<Rightarrow> st)"

definition pty_kill :: "pty \<Rightarrow> pty" where
  "pty_kill p = p\<lparr>killed := True\<rparr>"

definition pty_write :: "pty \<Rightarrow> jsstring \<Rightarrow> pty" where
  "pty_write p s = p\<lparr>written := written p @ [s]\<rparr>"

text \<open>
  node-pty's \<^verbatim>\<open>resize\<close>:
  \<^verbatim>\<open>
  if (cols <= 0 || rows <= 0 || isNaN(cols) || isNaN(rows)
      || cols === Infinity || rows === Infinity) {
    throw new Error('resizing must be done using positive cols and rows');
  }
  pty.resize(this._fd, cols, rows);
  this._cols = cols;
  this._rows = rows;
  \<close>
  The check throws on a number that is not positive or not finite and on a value that
  converts to \<^verbatim>\<open>NaN\<close>; the native \<^verbatim>\<open>pty.resize\<close> takes numbers only and throws on a
  value of another type that has passed the check by conversion. So the call stores the
  two values if both are finite numbers greater than 0, and throws otherwise, before it
  has changed anything.
\<close>

fun positive_finite :: "jsval \<Rightarrow> bool" where
  "positive_finite (JNum (Finite x)) = (0 < x)"
| "positive_finite v = False"

definition pty_resize :: "pty \<Rightarrow> jsval \<Rightarrow> jsval \<Rightarrow> exn + pty" where
  "pty_resize p c r =
     (if positive_finite c \<and> positive_finite r then Inr (p\<lparr>cols := c, rows := r\<rparr>)
      else Inl Error)"

definition killSession :: "server \<Rightarrow> server" where
  "killSession st =
     (case currentPty st of
        None \<Rightarrow> st
      | Some i \<Rightarrow> st\<lparr>ptys := (ptys st)[i := pty_kill (ptys st ! i)], currentPty := None\<rparr>)"

text \<open>
  The session manager's write and resize, inlined in the router as
  \<^verbatim>\<open>if (currentPty) currentPty.write(...)\<close> and
  \<^verbatim>\<open>if (currentPty) currentPty.resize(msg.cols, msg.rows)\<close>.
\<close>

definition session_write :: "server \<Rightarrow> jsstring \<Rightarrow> server" where
  "session_write st s =
     (case currentPty st of
        None \<Rightarrow> st
      | Some i \<Rightarrow> st\<lparr>ptys := (ptys st)[i := pty_write (ptys st ! i) s]\<rparr>)"

definition session_resize :: "server \<Rightarrow> jsval \<Rightarrow> jsval \<Rightarrow> exn + server" where
  "session_resize st c r =
     (case currentPty st of
        None \<Rightarrow> Inr st
      | Some i \<Rightarrow>
          (case pty_resize (ptys st ! i) c r of
             Inl e \<Rightarrow> Inl e
           | Inr p \<Rightarrow> Inr (st\<lparr>ptys := (ptys st)[i := p]\<rparr>)))"

subsection \<open>Connection router\<close>

text \<open>
  \<^verbatim>\<open>wss.on("connection", (ws) => { activeWs = ws; sendControl(ws, ...); ... })\<close>.
  The socket is a new object, open when the event is emitted. The result is its index
  and the new state.
\<close>

definition on_connection :: "server \<Rightarrow> nat \<times> server" where
  "on_connection st =
     (let w = length (conns st);
          st = st\<lparr>conns := conns st @ [\<lparr>readyState = OPEN, sent = []\<rparr>]\<rparr>;
          st = st\<lparr>activeWs := Some w\<rparr>;
          st = sendControl st w
                 (json_type (if currentPty st \<noteq> None then ''session-active''
                             else ''session-inactive''))
      in (w, st))"

text \<open>
  The body of the \<^verbatim>\<open>try\<close> block of the message handler. \<open>Inl\<close> is an exception
  leaving the block; the three places that throw (\<^verbatim>\<open>JSON.parse\<close>, reading
  \<^verbatim>\<open>msg.type\<close> of \<^verbatim>\<open>null\<close>, and \<^verbatim>\<open>resize\<close>) do so before any assignment.
\<close>

definition control_body ::
    "json_parser \<Rightarrow> nat option \<Rightarrow> server \<Rightarrow> nat \<Rightarrow> bytes \<Rightarrow> exn + server" where
  "control_body JSON_parse spawned st w body =
     (case JSON_parse (toString body) of
        Inl e \<Rightarrow> Inl e
      | Inr msg \<Rightarrow>
          (case properties msg of
             Inl e \<Rightarrow> Inl e
           | Inr get \<Rightarrow>
              if get ''type'' = JStr ''start'' then
                (let st = spawnSession spawned st
                 in Inr (sendControl st w
                      (json_type (if currentPty st \<noteq> None then ''session-active''
                                  else ''exit''))))
              else if get ''type'' = JStr ''close'' then
                (let st = killSession st
                 in Inr (sendControl st w (json_type ''session-inactive'')))
              else if get ''type'' = JStr ''resize'' \<and> truthy (get ''cols'')
                        \<and> truthy (get ''rows'') then
                session_resize st (get ''cols'') (get ''rows'')
              else Inr st))"

text \<open>
  \<^verbatim>\<open>ws.on("message", (raw) => { ... })\<close> for the socket \<open>w\<close>. The result is
  \<open>Inl\<close> if an exception leaves the handler. The \<^verbatim>\<open>catch\<close> block is empty.
\<close>

definition on_message ::
    "json_parser \<Rightarrow> nat option \<Rightarrow> server \<Rightarrow> nat \<Rightarrow> bytes \<Rightarrow> exn + server" where
  "on_message JSON_parse spawned st w raw =
     (case decode raw of
        None \<Rightarrow> Inr st
      | Some (type, body) \<Rightarrow>
          if type = DATA_BYTE then Inr (session_write st (toString body))
          else if type = CONTROL_BYTE then
            (case control_body JSON_parse spawned st w body of
               Inl e \<Rightarrow> Inr st
             | Inr st' \<Rightarrow> Inr st')
          else Inr st)"

text \<open>\<^verbatim>\<open>ws.on("close", () => { if (activeWs === ws) activeWs = null; })\<close>.\<close>

definition on_close :: "server \<Rightarrow> nat \<Rightarrow> server" where
  "on_close st w = (if activeWs st = Some w then st\<lparr>activeWs := None\<rparr> else st)"

text \<open>
  The debounced timer of the file watcher:
  \<^verbatim>\<open>if (activeWs) sendControl(activeWs, { type: "file-changed", file: relative })\<close>;
  \<open>msg\<close> is the JSON text of that object.
\<close>

definition on_file_changed :: "server \<Rightarrow> jsstring \<Rightarrow> server" where
  "on_file_changed st msg =
     (case activeWs st of Some a \<Rightarrow> sendControl st a msg | None \<Rightarrow> st)"

subsection \<open>The event loop\<close>

text \<open>
  Everything the server does after start-up is the run of one listener, to completion,
  on one event. A message carries the outcome \<^verbatim>\<open>pty.spawn\<close> would have, should the
  handler call it. Events reach only objects that exist: a message arrives on an accepted,
  open socket; a socket closes once, its \<^verbatim>\<open>readyState\<close> set before the listener runs; a
  PTY emits data until it has exited, and exits once.
\<close>

datatype event =
    Connection
  | Message nat bytes "nat option"
  | Close nat
  | PtyData nat jsstring
  | PtyExit nat
  | FileChanged jsstring

fun step :: "json_parser \<Rightarrow> server \<Rightarrow> event \<Rightarrow> server" where
  "step P st Connection = snd (on_connection st)"
| "step P st (Message w raw spawned) =
     (if w < length (conns st) \<and> readyState (conns st ! w) = OPEN
      then (case on_message P spawned st w raw of Inr st' \<Rightarrow> st' | Inl e \<Rightarrow> st)
      else st)"
| "step P st (Close w) =
     (if w < length (conns st) \<and> readyState (conns st ! w) \<noteq> CLOSED
      then on_close (st\<lparr>conns := (conns st)[w := (conns st ! w)\<lparr>readyState := CLOSED\<rparr>]\<rparr>) w
      else st)"
| "step P st (PtyData i data) =
     (if i < length (ptys st) \<and> \<not> exited (ptys st ! i) then onData st data else st)"
| "step P st (PtyExit i) =
     (if i < length (ptys st) \<and> \<not> exited (ptys st ! i)
      then onExit (st\<lparr>ptys := (ptys st)[i := (ptys st ! i)\<lparr>exited := True\<rparr>]\<rparr>)
      else st)"
| "step P st (FileChanged msg) = on_file_changed st msg"

definition run :: "json_parser \<Rightarrow> server \<Rightarrow> event list \<Rightarrow> server" where
  "run P st evs = foldl (step P) st evs"

text \<open>The two references point at existing objects.\<close>

definition valid_refs :: "server \<Rightarrow> bool" where
  "valid_refs st \<longleftrightarrow>
     (case currentPty st of None \<Rightarrow> True | Some i \<Rightarrow> i < length (ptys st)) \<and>
     (case activeWs st of None \<Rightarrow> True | Some a \<Rightarrow> a < length (conns st))"

text \<open>
  Each listener only ever appends to the messages sent on a socket, and no socket is
  forgotten: \<open>grows st st'\<close> says so of two states.
\<close>

definition grows :: "server \<Rightarrow> server \<Rightarrow> bool" where
  "grows st st' \<longleftrightarrow>
     length (conns st) \<le> length (conns st') \<and>
     (\<forall>w < length (conns st). \<exists>fs. sent (conns st' ! w) = sent (conns st ! w) @ fs)"

subsection \<open>Sample inputs\<close>

text \<open>
  The values of \<^verbatim>\<open>JSON.parse\<close> on the texts used in the examples below; every other
  text is taken as malformed, as \<^verbatim>\<open>not valid json{\<close> is.
\<close>

definition JSON_parse_table :: json_parser where
  "JSON_parse_table s =
     (case find (\<lambda>t. s = json_type t)
             [''start'', ''close'', ''ping'', ''session-active'', ''session-inactive'', ''exit''] of
        Some t \<Rightarrow> Inr (JObj [(''type'', JStr t)])
      | None \<Rightarrow>
          if s = json_resize ''120'' ''40''
            then Inr (JObj [(''type'', JStr ''resize''), (''cols'', JNum (Finite 120)),
                            (''rows'', JNum (Finite 40))])
          else if s = json_resize ''-5'' ''40''
            then Inr (JObj [(''type'', JStr ''resize''), (''cols'', JNum (Finite (- 5))),
                            (''rows'', JNum (Finite 40))])
          else if s = json_resize ''0'' ''40''
            then Inr (JObj [(''type'', JStr ''resize''), (''cols'', JNum (Finite 0)),
                            (''rows'', JNum (Finite 40))])
          else if s = ascii ''null'' then Inr JNull
          else Inl SyntaxError)"

definition control_message :: "string \<Rightarrow> bytes" where
  "control_message t = CONTROL_BYTE # json_type t"

text \<open>One client has connected; no session yet.\<close>

definition idle :: server where
  "idle = run JSON_parse_table init [Connection]"

text \<open>One client has connected and started a session; the process has pid 4242.\<close>

definition running :: server where
  "running = run JSON_parse_table init
     [Connection, Message 0 (control_message ''start'') (Some 4242)]"

text \<open>A second client has connected since, and the first socket is still open.\<close>

definition taken_over :: server where
  "taken_over = run JSON_parse_table running [Connection]"

text \<open>Two clients have connected, the second after the first; no session yet.\<close>

definition two_clients :: server where
  "two_clients = run JSON_parse_table init [Connection, Connection]"

text \<open>
  A client starts a session (pid 1), closes it and starts another (pid 2); then the
  first, killed process exits and its \<^verbatim>\<open>onExit\<close> listener runs.
\<close>

definition stale_exit :: server where
  "stale_exit = run JSON_parse_table init
     [Connection,
      Message 0 (control_message ''start'') (Some 1),
      Message 0 (control_message ''close'') None,
      Message 0 (control_message ''start'') (Some 2),
      PtyExit 0]"

section \<open>The client: terminal panel\<close>

subsection \<open>State\<close>

text \<open>
  The terminal emulator (with the chunks written to it) and the resize observer are
  objects the panel creates and later lets go of; the refs hold indices into the objects
  created so far.
\<close>

record terminal =
  disposed :: bool
  received :: "bytes list"

record observer =
  disconnected :: bool

text \<open>
  The React state and refs of \<^verbatim>\<open>TerminalPanel\<close> that the socket and the buttons touch.
  \<open>containerRef\<close> says whether the container element is mounted, \<open>termModulesRef\<close>
  whether the emulator modules are loaded, \<open>effect_disposed\<close> is the variable
  \<^verbatim>\<open>disposed\<close> of the connection effect, \<open>reconnectTimer\<close> whether the timer is
  pending, \<open>importing\<close> the number of \<^verbatim>\<open>ensureTerminal\<close> calls waiting at
  \<^verbatim>\<open>await Promise.all([import(...), import(...)])\<close>, and \<open>dispatched\<close> the details of
  the \<^verbatim>\<open>docs-file-changed\<close> events dispatched on the window.
\<close>

record client =
  sessionActive :: bool
  connected :: bool
  termRef :: "nat option"
  fitAddonRef :: "nat option"
  resizeObserverRef :: "nat option"
  wsRef :: "nat option"
  termModulesRef :: bool
  containerRef :: bool
  effect_disposed :: bool
  reconnectTimer :: bool
  importing :: nat
  terminals :: "terminal list"
  observers :: "observer list"
  sockets :: "websocket list"
  dispatched :: "jsval list"

subsection \<open>Sending\<close>

text \<open>
  \<^verbatim>\<open>
  const payload = new Uint8Array(1 + msg.length);
  payload[0] = CONTROL_BYTE;
  payload.set(msg, 1);
  \<close>
  \<^verbatim>\<open>payload.set(msg, 1)\<close> copies \<open>msg\<close> to offset 1; it fits, the array being one
  longer than \<open>msg\<close>.
\<close>

definition client_encode :: "byte \<Rightarrow> bytes \<Rightarrow> bytes" where
  "client_encode kind msg =
     (let payload = replicate (1 + length msg) 0;
          payload = payload[0 := kind]
      in take 1 payload @ msg @ drop (1 + length msg) payload)"

definition client_send :: "client \<Rightarrow> nat \<Rightarrow> bytes \<Rightarrow> client" where
  "client_send c s payload =
     c\<lparr>sockets := (sockets c)[s := (sockets c ! s)\<lparr>sent := sent (sockets c ! s) @ [payload]\<rparr>]\<rparr>"

definition client_sendControl :: "client \<Rightarrow> nat \<Rightarrow> jsstring \<Rightarrow> client" where
  "client_sendControl c s msg =
     (if readyState (sockets c ! s) \<noteq> OPEN then c
      else client_send c s (client_encode CONTROL_BYTE msg))"

subsection \<open>The emulator\<close>

text \<open>
  \<^verbatim>\<open>ensureTerminal\<close> is an \<^verbatim>\<open>async\<close> function: it runs up to the \<^verbatim>\<open>await\<close> at
  once and the rest when the modules have arrived. \<open>ensureTerminal_mount\<close> is the part
  from \<^verbatim>\<open>if (!containerRef.current || termRef.current) return;\<close> on.
\<close>

definition ensureTerminal_mount :: "client \<Rightarrow> client" where
  "ensureTerminal_mount c =
     (if \<not> containerRef c \<or> termRef c \<noteq> None then c
      else c\<lparr>terminals := terminals c @ [\<lparr>disposed = False, received = []\<rparr>],
             termRef := Some (length (terminals c)),
             fitAddonRef := Some (length (terminals c)),
             observers := observers c @ [\<lparr>disconnected = False\<rparr>],
             resizeObserverRef := Some (length (observers c))\<rparr>)"

definition ensureTerminal :: "client \<Rightarrow> client" where
  "ensureTerminal c =
     (if termRef c \<noteq> None then c
      else if \<not> termModulesRef c then c\<lparr>importing := Suc (importing c)\<rparr>
      else ensureTerminal_mount c)"

definition ensureTerminal_resume :: "client \<Rightarrow> client" where
  "ensureTerminal_resume c = ensureTerminal_mount (c\<lparr>termModulesRef := True\<rparr>)"

subsection \<open>The socket's listeners\<close>

text \<open>
  \<^verbatim>\<open>new TextDecoder().decode(body)\<close> drops a leading byte order mark and decodes as
  \<^verbatim>\<open>toString\<close> does.
\<close>

definition TextDecoder_decode :: "bytes \<Rightarrow> jsstring" where
  "TextDecoder_decode body =
     toString (if take 3 body = [0xEF, 0xBB, 0xBF] then drop 3 body else body)"

definition term_write :: "client \<Rightarrow> bytes \<Rightarrow> client" where
  "term_write c body =
     (case termRef c of
        None \<Rightarrow> c
      | Some t \<Rightarrow>
          c\<lparr>terminals := (terminals c)[t := (terminals c ! t)\<lparr>received := received (terminals c ! t) @ [body]\<rparr>]\<rparr>)"

definition client_control_body :: "json_parser \<Rightarrow> client \<Rightarrow> bytes \<Rightarrow> exn + client" where
  "client_control_body JSON_parse c body =
     (case JSON_parse (TextDecoder_decode body) of
        Inl e \<Rightarrow> Inl e
      | Inr msg \<Rightarrow>
          (case properties msg of
             Inl e \<Rightarrow> Inl e
           | Inr get \<Rightarrow>
               if get ''type'' = JStr ''session-active'' then
                 Inr (ensureTerminal (c\<lparr>sessionActive := True\<rparr>))
               else if get ''type'' = JStr ''session-inactive'' then
                 Inr (c\<lparr>sessionActive := False\<rparr>)
               else if get ''type'' = JStr ''exit'' then
                 Inr (c\<lparr>sessionActive := False\<rparr>)
               else if get ''type'' = JStr ''file-changed'' then
                 Inr (c\<lparr>dispatched := dispatched c @ [get ''file'']\<rparr>)
               else Inr c))"

definition ws_onmessage :: "json_parser \<Rightarrow> client \<Rightarrow> bytes \<Rightarrow> exn + client" where
  "ws_onmessage JSON_parse c raw =
     (case decode raw of
        None \<Rightarrow> Inr c
      | Some (type, body) \<Rightarrow>
          if type = DATA_BYTE then Inr (term_write c body)
          else if type = CONTROL_BYTE then
            (case client_control_body JSON_parse c body of
               Inl e \<Rightarrow> Inr c
             | Inr c' \<Rightarrow> Inr c')
          else Inr c)"

definition connect :: "client \<Rightarrow> client" where
  "connect c =
     (if effect_disposed c then c
      else c\<lparr>sockets := sockets c @ [\<lparr>readyState = CONNECTING, sent = []\<rparr>],
             wsRef := Some (length (sockets c))\<rparr>)"

definition ws_onopen :: "client \<Rightarrow> client" where
  "ws_onopen c = (if effect_disposed c then c else c\<lparr>connected := True\<rparr>)"

definition ws_onclose :: "client \<Rightarrow> client" where
  "ws_onclose c =
     (if effect_disposed c then c
      else c\<lparr>connected := False, wsRef := None, reconnectTimer := True\<rparr>)"

text \<open>The clean-up of the connection effect, run when the panel unmounts.\<close>

definition cleanup :: "client \<Rightarrow> client" where
  "cleanup c =
     (let c = c\<lparr>effect_disposed := True, reconnectTimer := False\<rparr>;
          c = (case wsRef c of
                 None \<Rightarrow> c
               | Some s \<Rightarrow> c\<lparr>sockets := (sockets c)[s := (sockets c ! s)\<lparr>readyState := CLOSING\<rparr>]\<rparr>)
      in c\<lparr>wsRef := None\<rparr>)"

subsection \<open>The emulator's listeners and the buttons\<close>

text \<open>\<^verbatim>\<open>term.onData\<close>: keystrokes, sent as a data frame.\<close>

definition term_onData :: "client \<Rightarrow> jsstring \<Rightarrow> client" where
  "term_onData c data =
     (case wsRef c of
        None \<Rightarrow> c
      | Some s \<Rightarrow>
          if readyState (sockets c ! s) = OPEN then client_send c s (client_encode DATA_BYTE data)
          else c)"

text \<open>
  The resize observer's callback; \<open>msg\<close> is the JSON text of
  \<^verbatim>\<open>{ type: "resize", cols: term.cols, rows: term.rows }\<close>, as \<open>json_resize\<close> gives it.
\<close>

definition on_resize_observed :: "client \<Rightarrow> jsstring \<Rightarrow> client" where
  "on_resize_observed c msg =
     (case wsRef c of
        None \<Rightarrow> c
      | Some s \<Rightarrow> if readyState (sockets c ! s) = OPEN then client_sendControl c s msg else c)"

definition handleStart :: "client \<Rightarrow> client" where
  "handleStart c =
     (case wsRef c of
        None \<Rightarrow> c
      | Some s \<Rightarrow>
          if readyState (sockets c ! s) \<noteq> OPEN then c
          else client_sendControl c s (json_type ''start''))"

definition handleStop :: "client \<Rightarrow> client" where
  "handleStop c =
     (case wsRef c of
        None \<Rightarrow> c
      | Some s \<Rightarrow>
          if readyState (sockets c ! s) \<noteq> OPEN then c
          else
            (let c = client_sendControl c s (json_type ''close'');
                 c = (case resizeObserverRef c of
                        None \<Rightarrow> c
                      | Some r \<Rightarrow> c\<lparr>observers := (observers c)[r := \<lparr>disconnected = True\<rparr>]\<rparr>);
                 c = c\<lparr>resizeObserverRef := None\<rparr>;
                 c = (case termRef c of
                        None \<Rightarrow> c
                      | Some t \<Rightarrow>
                          c\<lparr>terminals := (terminals c)[t := (terminals c ! t)\<lparr>disposed := True\<rparr>]\<rparr>);
                 c = c\<lparr>termRef := None\<rparr>
             in c\<lparr>fitAddonRef := None\<rparr>))"

subsection \<open>The client's event loop\<close>

text \<open>
  As on the server, one listener runs at a time. The browser sets a socket's
  \<^verbatim>\<open>readyState\<close> before it calls \<^verbatim>\<open>onopen\<close> or \<^verbatim>\<open>onclose\<close>; a render mounts the
  container element exactly when \<^verbatim>\<open>sessionActive\<close> is true; a disposed emulator and a
  disconnected observer call no listener.
\<close>

datatype client_event =
    SocketOpen nat
  | SocketMessage nat bytes
  | SocketClose nat
  | ReconnectTimer
  | ModulesLoaded
  | Render
  | ClickStart
  | ClickStop
  | TermData nat jsstring
  | ResizeObserved nat jsstring
  | Unmount

fun client_step :: "json_parser \<Rightarrow> client \<Rightarrow> client_event \<Rightarrow> client" where
  "client_step P c (SocketOpen s) =
     (if s < length (sockets c) \<and> readyState (sockets c ! s) = CONNECTING
      then ws_onopen (c\<lparr>sockets := (sockets c)[s := (sockets c ! s)\<lparr>readyState := OPEN\<rparr>]\<rparr>)
      else c)"
| "client_step P c (SocketMessage s raw) =
     (if s < length (sockets c) \<and> readyState (sockets c ! s) = OPEN
      then (case ws_onmessage P c raw of Inr c' \<Rightarrow> c' | Inl e \<Rightarrow> c)
      else c)"
| "client_step P c (SocketClose s) =
     (if s < length (sockets c) \<and> readyState (sockets c ! s) \<noteq> CLOSED
      then ws_onclose (c\<lparr>sockets := (sockets c)[s := (sockets c ! s)\<lparr>readyState := CLOSED\<rparr>]\<rparr>)
      else c)"
| "client_step P c ReconnectTimer =
     (if reconnectTimer c then connect (c\<lparr>reconnectTimer := False\<rparr>) else c)"
| "client_step P c ModulesLoaded =
     (if 0 < importing c then ensureTerminal_resume (c\<lparr>importing := importing c - 1\<rparr>) else c)"
| "client_step P c Render = c\<lparr>containerRef := sessionActive c\<rparr>"
| "client_step P c ClickStart = handleStart c"
| "client_step P c ClickStop = handleStop c"
| "client_step P c (TermData t data) =
     (if t < length (terminals c) \<and> \<not> disposed (terminals c ! t) then term_onData c data else c)"
| "client_step P c (ResizeObserved r msg) =
     (if r < length (observers c) \<and> \<not> disconnected (observers c ! r)
      then on_resize_observed c msg else c)"
| "client_step P c Unmount = cleanup c"

definition client_run :: "json_parser \<Rightarrow> client \<Rightarrow> client_event list \<Rightarrow> client" where
  "client_run P c evs = foldl (client_step P) c evs"

text \<open>The panel after mounting: \<^verbatim>\<open>connect()\<close> has been called once.\<close>

definition client_init :: client where
  "client_init =
     connect \<lparr>sessionActive = False, connected = False, termRef = None, fitAddonRef = None,
              resizeObserverRef = None, wsRef = None, termModulesRef = False,
              containerRef = False, effect_disposed = False, reconnectTimer = False,
              importing = 0, terminals = [], observers = [], sockets = [], dispatched = []\<rparr>"

text \<open>
  A session is shown in an emulator and the socket is open; and the same after the
  socket has dropped, before the reconnect.
\<close>

definition attached :: client where
  "attached = client_run JSON_parse_table client_init
     [SocketOpen 0, SocketMessage 0 (control_message ''session-active''), Render, ModulesLoaded]"

definition offline :: client where
  "offline = client_run JSON_parse_table attached [SocketClose 0]"

text \<open>
  \<open>keeps_emulator c c'\<close>: every emulator and every observer that exists in \<open>c\<close> is
  disposed, respectively disconnected, in \<open>c'\<close> exactly if it is in \<open>c\<close>.
\<close>

definition keeps_emulator :: "client \<Rightarrow> client \<Rightarrow> bool" where
  "keeps_emulator c c' \<longleftrightarrow>
     (\<forall>t < length (terminals c). disposed (terminals c' ! t) = disposed (terminals c ! t)) \<and>
     (\<forall>r < length (observers c).
        disconnected (observers c' ! r) = disconnected (observers c ! r))"

section \<open>Properties of the framing\<close>

lemma encode_cons: "encode kind msg = kind # msg"
  by (simp add: encode_def Buffer_alloc_def Buffer_set_def Buffer_write_def)

lemma client_encode_cons: "client_encode kind msg = kind # msg"
  by (simp add: client_encode_def)

lemma decode_cons: "decode (b # bs) = Some (b, bs)"
  by (simp add: decode_def)

lemma kinds_distinct: "DATA_BYTE \<noteq> CONTROL_BYTE"
  by (simp add: DATA_BYTE_def CONTROL_BYTE_def)

text \<open>
  C2. The kind bytes are \<open>0x00\<close> for data and \<open>0x01\<close> for control. For every kind
  byte and every payload, the encoded message, as the server builds it and as the client
  builds it, is the kind byte followed by the payload; decoding a message of one or more
  bytes returns its first byte and exactly the bytes after it, so decoding an encoded
  message returns the kind and the payload; and decoding fails on the empty message only.
\<close>

theorem framing_round_trip:
  "DATA_BYTE = 0x00 \<and> CONTROL_BYTE = 0x01 \<and>
   encode kind p = kind # p \<and> client_encode kind p = kind # p \<and>
   decode (encode kind p) = Some (kind, p) \<and>
   decode (client_encode kind p) = Some (kind, p) \<and>
   decode (b # bs) = Some (b, bs) \<and>
   (decode buf = None \<longleftrightarrow> buf = [])"
  by (simp add: encode_cons client_encode_cons decode_def DATA_BYTE_def CONTROL_BYTE_def)

theorem framing_round_trip_witness:
  "encode DATA_BYTE [0x6C, 0x73, 0x0D] = [0x00, 0x6C, 0x73, 0x0D] \<and>
   decode (encode DATA_BYTE [0x6C, 0x73, 0x0D]) = Some (0x00, [0x6C, 0x73, 0x0D]) \<and>
   decode [0x01, 0x7B, 0x7D] = Some (0x01, [0x7B, 0x7D]) \<and>
   decode [] = None"
  using framing_round_trip [of DATA_BYTE "[0x6C, 0x73, 0x0D]" "0x01" "[0x7B, 0x7D]" "[]"]
  by (auto simp: DATA_BYTE_def)

section \<open>Properties of the server\<close>

subsection \<open>What sending changes\<close>

lemma ptys_sendControl [simp]: "ptys (sendControl st w m) = ptys st"
  by (simp add: sendControl_def ws_send_def)

lemma currentPty_sendControl [simp]: "currentPty (sendControl st w m) = currentPty st"
  by (simp add: sendControl_def ws_send_def)

lemma activeWs_sendControl [simp]: "activeWs (sendControl st w m) = activeWs st"
  by (simp add: sendControl_def ws_send_def)

lemma length_conns_sendControl [simp]:
  "length (conns (sendControl st w m)) = length (conns st)"
  by (simp add: sendControl_def ws_send_def)

lemma conns_sendControl_open:
  "w < length (conns st) \<Longrightarrow> readyState (conns st ! w) = OPEN \<Longrightarrow>
   conns (sendControl st w m) =
     (conns st)[w := (conns st ! w)\<lparr>sent := sent (conns st ! w) @ [encode CONTROL_BYTE m]\<rparr>]"
  by (simp add: sendControl_def ws_send_def)

lemma sent_sendControl_open:
  "w < length (conns st) \<Longrightarrow> readyState (conns st ! w) = OPEN \<Longrightarrow>
   sent (conns (sendControl st w m) ! w) = sent (conns st ! w) @ [encode CONTROL_BYTE m]"
  by (simp add: conns_sendControl_open)

lemma readyState_sendControl [simp]:
  "readyState (conns (sendControl st w m) ! v) = readyState (conns st ! v)"
  by (cases "w < length (conns st)"; cases "v = w")
     (auto simp: sendControl_def ws_send_def list_update_beyond)

lemma conns_sendControl_other:
  "v \<noteq> w \<Longrightarrow> conns (sendControl st w m) ! v = conns st ! v"
  by (simp add: sendControl_def ws_send_def)

subsection \<open>Sent messages are never taken back\<close>

lemma grows_refl: "grows st st"
  by (simp add: grows_def)

lemma grows_trans: "grows a b \<Longrightarrow> grows b c \<Longrightarrow> grows a c"
  unfolding grows_def by (metis append.assoc le_trans less_le_trans)

lemma grows_same_conns: "conns st' = conns st \<Longrightarrow> grows st st'"
  by (simp add: grows_def)

lemma grows_ws_send: "grows st (ws_send st w payload)"
  unfolding grows_def ws_send_def
proof (intro conjI allI impI)
  fix v assume "v < length (conns st)"
  then show "\<exists>fs. sent (conns (st\<lparr>conns := (conns st)
                 [w := (conns st ! w)\<lparr>sent := sent (conns st ! w) @ [payload]\<rparr>]\<rparr>) ! v)
               = sent (conns st ! v) @ fs"
    by (cases "v = w") simp_all
qed simp

lemma grows_sendControl: "grows st (sendControl st w msg)"
  by (simp add: sendControl_def grows_refl grows_ws_send)

lemma grows_sendData: "grows st (sendData st w msg)"
  by (simp add: sendData_def grows_refl grows_ws_send)

lemma grows_spawnSession: "grows st (spawnSession sp st)"
  by (auto simp: spawnSession_def grows_refl grows_sendControl grows_same_conns
        split: option.splits)

lemma grows_killSession: "grows st (killSession st)"
  by (auto simp: killSession_def grows_refl grows_same_conns split: option.splits)

lemma grows_session_write: "grows st (session_write st s)"
  by (auto simp: session_write_def grows_refl grows_same_conns split: option.splits)

lemma grows_session_resize: "session_resize st c r = Inr st' \<Longrightarrow> grows st st'"
  by (auto simp: session_resize_def grows_refl grows_same_conns
        split: option.splits sum.splits)

lemma grows_control_body: "control_body P sp st w body = Inr st' \<Longrightarrow> grows st st'"
  unfolding control_body_def
  by (auto simp: Let_def grows_refl
        dest: grows_session_resize
        intro: grows_trans [OF grows_spawnSession grows_sendControl]
               grows_trans [OF grows_killSession grows_sendControl]
        split: sum.splits if_splits)

lemma grows_on_message: "on_message P sp st w raw = Inr st' \<Longrightarrow> grows st st'"
  unfolding on_message_def
  by (auto simp: grows_refl grows_session_write dest: grows_control_body
        split: option.splits sum.splits if_splits)

lemma grows_on_connection: "grows st (snd (on_connection st))"
proof -
  let ?st1 = "st\<lparr>conns := conns st @ [\<lparr>readyState = OPEN, sent = []\<rparr>],
                 activeWs := Some (length (conns st))\<rparr>"
  have "grows st ?st1" by (simp add: grows_def nth_append)
  then show ?thesis
    unfolding on_connection_def Let_def
    by (auto intro: grows_trans grows_sendControl)
qed

lemma grows_step: "grows st (step P st ev)"
proof (cases ev)
  case Connection
  then show ?thesis by (simp add: grows_on_connection)
next
  case (Message w raw sp)
  then show ?thesis
    by (auto simp: grows_refl dest: grows_on_message split: sum.splits)
next
  case (Close w)
  then show ?thesis
    by (auto simp: grows_def on_close_def nth_list_update)
next
  case (PtyData i d)
  then show ?thesis
    by (auto simp: onData_def grows_refl grows_sendData split: option.splits)
next
  case (PtyExit i)
  have "grows st (st\<lparr>ptys := (ptys st)[i := (ptys st ! i)\<lparr>exited := True\<rparr>],
                      currentPty := None\<rparr>)"
    by (simp add: grows_def)
  then show ?thesis using PtyExit
    by (auto simp: onExit_def Let_def grows_refl intro: grows_trans grows_sendControl
          split: option.splits)
next
  case (FileChanged m)
  then show ?thesis
    by (auto simp: on_file_changed_def grows_refl grows_sendControl split: option.splits)
qed

lemma grows_run: "grows st (run P st evs)"
  unfolding run_def
proof (induction evs arbitrary: st)
  case Nil
  show ?case by (simp add: grows_refl)
next
  case (Cons e es)
  show ?case using grows_trans [OF grows_step Cons.IH] by simp
qed

subsection \<open>The references stay valid\<close>

lemma valid_refs_init: "valid_refs init"
  by (simp add: valid_refs_def init_def)

lemma valid_refs_sendControl [simp]: "valid_refs (sendControl st w m) = valid_refs st"
  by (simp add: valid_refs_def split: option.splits)

lemma valid_refs_sendData [simp]: "valid_refs (sendData st w m) = valid_refs st"
  by (simp add: valid_refs_def sendData_def ws_send_def split: option.splits)

lemma valid_refs_spawnSession: "valid_refs st \<Longrightarrow> valid_refs (spawnSession sp st)"
  by (auto simp: spawnSession_def valid_refs_def split: option.splits)

lemma valid_refs_killSession: "valid_refs st \<Longrightarrow> valid_refs (killSession st)"
  by (auto simp: killSession_def valid_refs_def split: option.splits)

lemma valid_refs_session_write: "valid_refs st \<Longrightarrow> valid_refs (session_write st s)"
  by (auto simp: session_write_def valid_refs_def split: option.splits)

lemma valid_refs_session_resize:
  "valid_refs st \<Longrightarrow> session_resize st c r = Inr st' \<Longrightarrow> valid_refs st'"
  by (auto simp: session_resize_def valid_refs_def split: option.splits sum.splits)

lemma valid_refs_control_body:
  "valid_refs st \<Longrightarrow> control_body P sp st w body = Inr st' \<Longrightarrow> valid_refs st'"
  unfolding control_body_def
  by (auto simp: Let_def valid_refs_spawnSession valid_refs_killSession
        dest: valid_refs_session_resize split: sum.splits if_splits)

lemma valid_refs_on_message:
  "valid_refs st \<Longrightarrow> on_message P sp st w raw = Inr st' \<Longrightarrow> valid_refs st'"
  unfolding on_message_def
  by (auto simp: valid_refs_session_write dest: valid_refs_control_body
        split: option.splits sum.splits if_splits)

lemma valid_refs_step: "valid_refs st \<Longrightarrow> valid_refs (step P st ev)"
proof (cases ev)
  case Connection
  assume "valid_refs st"
  then have "valid_refs (st\<lparr>conns := conns st @ [\<lparr>readyState = OPEN, sent = []\<rparr>],
                             activeWs := Some (length (conns st))\<rparr>)"
    by (auto simp: valid_refs_def split: option.splits)
  with Connection show ?thesis by (simp add: on_connection_def Let_def)
next
  case (Message w raw sp)
  assume "valid_refs st"
  with Message show ?thesis
    by (auto dest: valid_refs_on_message split: sum.splits)
next
  case (Close w)
  assume "valid_refs st"
  with Close show ?thesis
    by (auto simp: valid_refs_def on_close_def split: option.splits)
next
  case (PtyData i d)
  assume "valid_refs st"
  with PtyData show ?thesis
    by (auto simp: onData_def split: option.splits)
next
  case (PtyExit i)
  assume "valid_refs st"
  then have "valid_refs (st\<lparr>ptys := (ptys st)[i := (ptys st ! i)\<lparr>exited := True\<rparr>],
                             currentPty := None\<rparr>)"
    by (auto simp: valid_refs_def split: option.splits)
  with PtyExit \<open>valid_refs st\<close> show ?thesis
    by (auto simp: onExit_def Let_def split: option.splits)
next
  case (FileChanged m)
  assume "valid_refs st"
  with FileChanged show ?thesis
    by (auto simp: on_file_changed_def split: option.splits)
qed

lemma valid_refs_run: "valid_refs st \<Longrightarrow> valid_refs (run P st evs)"
  unfolding run_def
  by (induction evs arbitrary: st) (simp_all add: valid_refs_step)

subsection \<open>The message handler, branch by branch\<close>

lemma on_message_empty: "on_message P sp st w [] = Inr st"
  by (simp add: on_message_def decode_def)


lemma on_message_control:
  "on_message P sp st w (CONTROL_BYTE # body) =
     (case control_body P sp st w body of Inl e \<Rightarrow> Inr st | Inr st' \<Rightarrow> Inr st')"
  using kinds_distinct by (auto simp: on_message_def decode_def)

lemma on_message_total: "\<exists>st'. on_message P sp st w raw = Inr st'"
  by (auto simp: on_message_def split: option.splits sum.splits)

lemma control_body_start:
  assumes "P (toString body) = Inr msg" "properties msg = Inr get"
    "get ''type'' = JStr ''start''"
  shows "control_body P sp st w body =
           Inr (sendControl (spawnSession sp st) w
                  (json_type (if currentPty (spawnSession sp st) \<noteq> None
                              then ''session-active'' else ''exit'')))"
  using assms by (simp add: control_body_def Let_def)

lemma control_body_close:
  assumes "P (toString body) = Inr msg" "properties msg = Inr get"
    "get ''type'' = JStr ''close''"
  shows "control_body P sp st w body =
           Inr (sendControl (killSession st) w (json_type ''session-inactive''))"
  using assms by (simp add: control_body_def Let_def)


lemma control_body_unknown:
  assumes "P (toString body) = Inr msg" "properties msg = Inr get"
    "get ''type'' \<noteq> JStr ''start''" "get ''type'' \<noteq> JStr ''close''"
    "get ''type'' \<noteq> JStr ''resize''"
  shows "control_body P sp st w body = Inr st"
  using assms by (simp add: control_body_def Let_def)

lemma control_body_throws:
  "P (toString body) = Inl e \<Longrightarrow> control_body P sp st w body = Inl e"
  "P (toString body) = Inr msg \<Longrightarrow> properties msg = Inl e \<Longrightarrow>
     control_body P sp st w body = Inl e"
  by (simp_all add: control_body_def)

subsection \<open>The sample inputs, evaluated\<close>

lemma parse_samples:
  "JSON_parse_table (toString (json_type ''start'')) = Inr (JObj [(''type'', JStr ''start'')])"
  "JSON_parse_table (toString (json_type ''close'')) = Inr (JObj [(''type'', JStr ''close'')])"
  "JSON_parse_table (toString (json_type ''ping'')) = Inr (JObj [(''type'', JStr ''ping'')])"
  "JSON_parse_table (toString (ascii ''null'')) = Inr JNull"
  "JSON_parse_table (toString (ascii ''not valid json{'')) = Inl SyntaxError"
  by code_simp+


lemma idle_eq:
  "idle = \<lparr>currentPty = None, activeWs = Some 0, ptys = [],
           conns = [\<lparr>readyState = OPEN, sent = [control_message ''session-inactive'']\<rparr>]\<rparr>"
  by code_simp

lemma running_eq:
  "running = \<lparr>currentPty = Some 0, activeWs = Some 0, ptys = [new_pty 4242],
              conns = [\<lparr>readyState = OPEN,
                        sent = [control_message ''session-inactive'',
                                control_message ''session-active'']\<rparr>]\<rparr>"
  by code_simp

lemma taken_over_eq:
  "taken_over = \<lparr>currentPty = Some 0, activeWs = Some 1, ptys = [new_pty 4242],
              conns = [\<lparr>readyState = OPEN,
                        sent = [control_message ''session-inactive'',
                                control_message ''session-active'']\<rparr>,
                       \<lparr>readyState = OPEN, sent = [control_message ''session-active'']\<rparr>]\<rparr>"
  by code_simp

lemma control_message_eq: "control_message t = encode CONTROL_BYTE (json_type t)"
  by (simp add: control_message_def encode_cons)

subsection \<open>Starting a session\<close>

lemma spawnSession_running: "currentPty st \<noteq> None \<Longrightarrow> spawnSession sp st = st"
  by (simp add: spawnSession_def)

lemma spawnSession_repeated:
  "currentPty st \<noteq> None \<Longrightarrow> foldl (\<lambda>s sp. spawnSession sp s) st sps = st"
  by (induction sps) (simp_all add: spawnSession_running)

lemma spawnSession_new_handle:
  "ptys (spawnSession sp st) \<noteq> ptys st \<Longrightarrow> currentPty st = None"
  by (auto simp: spawnSession_def split: option.splits if_splits)

text \<open>
  While a session is running, every call of \<open>spawnSession\<close>, whatever
  \<^verbatim>\<open>pty.spawn\<close> would have done, returns the state it was given, and so does any
  sequence of such calls: nothing is spawned, restarted or sent, and the session, its
  process id and its dimensions stay as they are. A \<^verbatim>\<open>start\<close> frame that arrives then
  is answered with \<^verbatim>\<open>session-active\<close> and changes nothing else.
\<close>

lemma start_while_running:
  assumes "currentPty st = Some i"
  shows "spawnSession spawned st = st \<and>
         foldl (\<lambda>s spawned. spawnSession spawned s) st outcomes = st \<and>
         (P (toString body) = Inr msg \<and> properties msg = Inr get \<and>
          get ''type'' = JStr ''start'' \<longrightarrow>
            on_message P spawned st w (CONTROL_BYTE # body) =
              Inr (sendControl st w (json_type ''session-active''))) \<and>
         currentPty (sendControl st w (json_type ''session-active'')) = Some i \<and>
         ptys (sendControl st w (json_type ''session-active'')) = ptys st"
  using assms
  by (simp add: spawnSession_running spawnSession_repeated on_message_control
        control_body_start)

lemma stale_exit_eq:
  "stale_exit =
     \<lparr>currentPty = None, activeWs = Some 0,
      ptys = [(new_pty 1)\<lparr>killed := True, exited := True\<rparr>, new_pty 2],
      conns = [\<lparr>readyState = OPEN,
                sent = [control_message ''session-inactive'', control_message ''session-active'',
                        control_message ''session-inactive'', control_message ''session-active'',
                        control_message ''exit'']\<rparr>]\<rparr>"
  by code_simp

text \<open>
  C3. The claim: a \<^verbatim>\<open>start\<close> issued while a session is running is a no-op, and at most
  one Session, the live PTY process with its identity and dimensions, exists at any time.
  The first half holds (\<open>start_while_running\<close>). The second the code breaks. A client
  starts a session (pid 1), closes it and starts another (pid 2); then the killed first
  process exits. Its \<^verbatim>\<open>onExit\<close> listener assigns \<^verbatim>\<open>currentPty = null\<close> without asking
  which process has exited: the manager now holds no session although process 2 is live,
  neither killed nor exited. The next \<^verbatim>\<open>start\<close> therefore spawns process 3 beside it,
  and two PTY processes are live at once, of which the manager knows only the last.
\<close>

theorem stale_exit_second_live_session:
  "currentPty stale_exit = None \<and>
   map pid (ptys stale_exit) = [1, 2] \<and>
   map killed (ptys stale_exit) = [True, False] \<and>
   map exited (ptys stale_exit) = [True, False] \<and>
   currentPty (step JSON_parse_table stale_exit
                 (Message 0 (control_message ''start'') (Some 3))) = Some 2 \<and>
   map pid (ptys (step JSON_parse_table stale_exit
                 (Message 0 (control_message ''start'') (Some 3)))) = [1, 2, 3] \<and>
   map killed (ptys (step JSON_parse_table stale_exit
                 (Message 0 (control_message ''start'') (Some 3)))) = [True, False, False] \<and>
   map exited (ptys (step JSON_parse_table stale_exit
                 (Message 0 (control_message ''start'') (Some 3)))) = [True, False, False]"
  by code_simp

subsection \<open>A new connection\<close>

lemma on_connection_eq:
  "on_connection st =
     (length (conns st),
      st\<lparr>conns := conns st @ [\<lparr>readyState = OPEN,
               sent = [encode CONTROL_BYTE (json_type (if currentPty st \<noteq> None
                         then ''session-active'' else ''session-inactive''))]\<rparr>],
         activeWs := Some (length (conns st))\<rparr>)"
  by (simp add: on_connection_def Let_def sendControl_def ws_send_def)

text \<open>
  C4. A new connection becomes the next socket, open, and the handler sends it exactly
  one message and no other socket any: the control frame \<^verbatim>\<open>session-active\<close> if a session
  exists at that moment, \<^verbatim>\<open>session-inactive\<close> if none does. Whatever events follow, that
  frame stays the first message sent on the socket.
\<close>

theorem connection_state_report:
  "fst (on_connection st) = length (conns st) \<and>
   conns (snd (on_connection st)) =
     conns st @ [\<lparr>readyState = OPEN,
                  sent = [encode CONTROL_BYTE (json_type (if currentPty st \<noteq> None
                            then ''session-active'' else ''session-inactive''))]\<rparr>] \<and>
   (\<exists>later. sent (conns (run P (snd (on_connection st)) evs) ! fst (on_connection st)) =
      encode CONTROL_BYTE (json_type (if currentPty st \<noteq> None
        then ''session-active'' else ''session-inactive'')) # later)"
proof -
  let ?w = "fst (on_connection st)" and ?st' = "snd (on_connection st)"
  let ?report = "encode CONTROL_BYTE (json_type (if currentPty st \<noteq> None
                   then ''session-active'' else ''session-inactive''))"
  have w: "?w = length (conns st)" by (simp add: on_connection_eq)
  have c: "conns ?st' = conns st @ [\<lparr>readyState = OPEN, sent = [?report]\<rparr>]"
    by (simp add: on_connection_eq)
  have "?w < length (conns ?st')" using w c by simp
  moreover have "grows ?st' (run P ?st' evs)" by (rule grows_run)
  ultimately obtain fs where
    "sent (conns (run P ?st' evs) ! ?w) = sent (conns ?st' ! ?w) @ fs"
    unfolding grows_def by blast
  moreover have "sent (conns ?st' ! ?w) = [?report]" using w c by simp
  ultimately have "\<exists>later. sent (conns (run P ?st' evs) ! ?w) = ?report # later" by simp
  with w c show ?thesis by blast
qed

theorem connection_state_report_witness:
  "fst (on_connection running) = 1 \<and>
   conns (snd (on_connection running)) =
     conns running @ [\<lparr>readyState = OPEN, sent = [control_message ''session-active'']\<rparr>] \<and>
   conns (snd (on_connection init)) =
     [\<lparr>readyState = OPEN, sent = [control_message ''session-inactive'']\<rparr>] \<and>
   (\<exists>later. sent (conns (run JSON_parse_table (snd (on_connection running))
                 [PtyData 0 [0x68, 0x69], Message 1 (control_message ''close'') None, PtyExit 0])
               ! fst (on_connection running)) =
      control_message ''session-active'' # later)"
proof -
  have cur: "currentPty running \<noteq> None" and len: "length (conns running) = 1"
    by (simp_all add: running_eq)
  have cur0: "currentPty init = None" and conns0: "conns init = []"
    by (simp_all add: init_def)
  note t = connection_state_report [of running JSON_parse_table
      "[PtyData 0 [0x68, 0x69], Message 1 (control_message ''close'') None, PtyExit 0]"]
  note u = connection_state_report [of init JSON_parse_table "[]"]
  from t len have 1: "fst (on_connection running) = 1" by simp
  from t cur have 2: "conns (snd (on_connection running)) =
      conns running @ [\<lparr>readyState = OPEN, sent = [control_message ''session-active'']\<rparr>]"
    by (auto simp: control_message_eq)
  from u cur0 conns0 have 3: "conns (snd (on_connection init)) =
      [\<lparr>readyState = OPEN, sent = [control_message ''session-inactive'']\<rparr>]"
    by (auto simp: control_message_eq)
  from t cur have 4: "\<exists>later. sent (conns (run JSON_parse_table (snd (on_connection running))
                 [PtyData 0 [0x68, 0x69], Message 1 (control_message ''close'') None, PtyExit 0])
               ! fst (on_connection running)) =
      control_message ''session-active'' # later"
    by (auto simp: control_message_eq)
  show ?thesis using 1 2 3 4 by blast
qed

subsection \<open>A connection closes\<close>

text \<open>
  C5. When a socket closes, the listener clears \<open>activeWs\<close> if it refers to that socket
  and leaves it alone otherwise, so that a superseded socket's closing does not clear
  it. The whole event changes neither the session nor any PTY handle and sends nothing on
  any socket; so if a session exists, the next connection's state report is
  \<^verbatim>\<open>session-active\<close>.
\<close>

theorem close_keeps_session:
  "activeWs (on_close st w) = (if activeWs st = Some w then None else activeWs st) \<and>
   currentPty (on_close st w) = currentPty st \<and>
   activeWs (step P st (Close w)) =
     (if w < length (conns st) \<and> readyState (conns st ! w) \<noteq> CLOSED \<and> activeWs st = Some w
      then None else activeWs st) \<and>
   currentPty (step P st (Close w)) = currentPty st \<and>
   ptys (step P st (Close w)) = ptys st \<and>
   map sent (conns (step P st (Close w))) = map sent (conns st) \<and>
   (currentPty st \<noteq> None \<longrightarrow>
      sent (conns (snd (on_connection (step P st (Close w))))
              ! fst (on_connection (step P st (Close w)))) =
        [encode CONTROL_BYTE (json_type ''session-active'')])"
proof -
  have a: "currentPty (step P st (Close w)) = currentPty st \<and>
           ptys (step P st (Close w)) = ptys st"
    by (simp add: on_close_def)
  have b: "map sent (conns (step P st (Close w))) = map sent (conns st)"
    by (auto simp: on_close_def map_update list_update_same_conv)
  have c: "activeWs (step P st (Close w)) =
     (if w < length (conns st) \<and> readyState (conns st ! w) \<noteq> CLOSED \<and> activeWs st = Some w
      then None else activeWs st)"
    by (simp add: on_close_def)
  have d: "currentPty st \<noteq> None \<longrightarrow>
      sent (conns (snd (on_connection (step P st (Close w))))
              ! fst (on_connection (step P st (Close w)))) =
        [encode CONTROL_BYTE (json_type ''session-active'')]"
    using a by (simp add: on_connection_eq del: step.simps)
  show ?thesis using a b c d by (simp add: on_close_def del: step.simps)
qed

theorem close_keeps_session_witness:
  "activeWs (step JSON_parse_table taken_over (Close 0)) = Some 1 \<and>
   activeWs (step JSON_parse_table taken_over (Close 1)) = None \<and>
   currentPty (step JSON_parse_table running (Close 0)) = Some 0 \<and>
   map sent (conns (step JSON_parse_table running (Close 0))) = map sent (conns running) \<and>
   sent (conns (snd (on_connection (step JSON_parse_table running (Close 0))))
           ! fst (on_connection (step JSON_parse_table running (Close 0)))) =
     [control_message ''session-active'']"
proof -
  have r: "currentPty running = Some 0" by (simp add: running_eq)
  have a: "activeWs taken_over = Some 1" "length (conns taken_over) = 2"
    "readyState (conns taken_over ! 0) = OPEN" "readyState (conns taken_over ! 1) = OPEN"
    by (simp_all add: taken_over_eq)
  note t0 = close_keeps_session [of taken_over 0 JSON_parse_table]
  note t1 = close_keeps_session [of taken_over 1 JSON_parse_table]
  note t2 = close_keeps_session [of running 0 JSON_parse_table]
  from t0 have "activeWs (step JSON_parse_table taken_over (Close 0)) =
     (if 0 < length (conns taken_over) \<and> readyState (conns taken_over ! 0) \<noteq> CLOSED \<and>
         activeWs taken_over = Some 0 then None else activeWs taken_over)"
    by blast
  with a have 1: "activeWs (step JSON_parse_table taken_over (Close 0)) = Some 1" by simp
  from t1 have "activeWs (step JSON_parse_table taken_over (Close 1)) =
     (if 1 < length (conns taken_over) \<and> readyState (conns taken_over ! 1) \<noteq> CLOSED \<and>
         activeWs taken_over = Some 1 then None else activeWs taken_over)"
    by blast
  with a have 2: "activeWs (step JSON_parse_table taken_over (Close 1)) = None" by simp
  from t2 r have 3: "currentPty (step JSON_parse_table running (Close 0)) = Some 0"
    by simp
  from t2 have 4: "map sent (conns (step JSON_parse_table running (Close 0))) =
      map sent (conns running)"
    by blast
  from t2 r have 5: "sent (conns (snd (on_connection (step JSON_parse_table running (Close 0))))
           ! fst (on_connection (step JSON_parse_table running (Close 0)))) =
     [control_message ''session-active'']"
    by (simp add: control_message_eq del: step.simps)
  show ?thesis using 1 2 3 4 5 by blast
qed

subsection \<open>Closing a session\<close>

lemma killSession_fields [simp]:
  "conns (killSession st) = conns st" "activeWs (killSession st) = activeWs st"
  "currentPty (killSession st) = None" "length (ptys (killSession st)) = length (ptys st)"
  by (simp_all add: killSession_def split: option.splits)

lemma killSession_running:
  "currentPty st = Some i \<Longrightarrow> i < length (ptys st) \<Longrightarrow>
   ptys (killSession st) = (ptys st)[i := (ptys st ! i)\<lparr>killed := True\<rparr>]"
  by (simp add: killSession_def pty_kill_def)

lemma step_PtyExit_live:
  "i < length (ptys st) \<Longrightarrow> \<not> exited (ptys st ! i) \<Longrightarrow>
   step P st (PtyExit i) =
     (case activeWs st of
        Some a \<Rightarrow>
          sendControl (st\<lparr>ptys := (ptys st)[i := (ptys st ! i)\<lparr>exited := True\<rparr>],
                          currentPty := None\<rparr>) a (json_type ''exit'')
      | None \<Rightarrow> st\<lparr>ptys := (ptys st)[i := (ptys st ! i)\<lparr>exited := True\<rparr>],
                    currentPty := None\<rparr>)"
  by (simp add: onExit_def Let_def)

text \<open>
  C1, as stated, fails. A client connects, starts a session and closes it; the killed
  process then exits and its \<^verbatim>\<open>onExit\<close> listener runs. The client has received, in this
  order, the state report, \<^verbatim>\<open>session-active\<close>, \<^verbatim>\<open>session-inactive\<close> in answer to the
  \<^verbatim>\<open>close\<close>, and then \<^verbatim>\<open>exit\<close>.
\<close>

theorem exit_after_close_counterexample:
  "sent (conns (run JSON_parse_table init
      [Connection,
       Message 0 (control_message ''start'') (Some 4242),
       Message 0 (control_message ''close'') None,
       PtyExit 0]) ! 0) =
   [control_message ''session-inactive'', control_message ''session-active'',
    control_message ''session-inactive'', control_message ''exit'']"
  by code_simp

text \<open>
  C1, amended. When an open socket sends \<^verbatim>\<open>close\<close> while a session is running, the
  handler kills the process, clears the session at once and sends that socket exactly one
  message, \<^verbatim>\<open>session-inactive\<close>, and no other socket any. The exit listener is still
  registered: when the killed process exits, it sends \<^verbatim>\<open>exit\<close> to the active connection.
  If the socket that asked for the close is the active connection, it therefore receives
  \<^verbatim>\<open>exit\<close> after \<^verbatim>\<open>session-inactive\<close>; if it is not, it receives nothing more.
\<close>

theorem close_reply_and_later_exit:
  assumes "w < length (conns st)" "readyState (conns st ! w) = OPEN"
    "currentPty st = Some i" "i < length (ptys st)" "\<not> exited (ptys st ! i)"
    "P (toString body) = Inr msg" "properties msg = Inr get" "get ''type'' = JStr ''close''"
  shows "\<exists>st'. on_message P sp st w (CONTROL_BYTE # body) = Inr st' \<and>
           currentPty st' = None \<and> killed (ptys st' ! i) \<and> \<not> exited (ptys st' ! i) \<and>
           conns st' = (conns st)[w := (conns st ! w)\<lparr>sent := sent (conns st ! w) @
              [encode CONTROL_BYTE (json_type ''session-inactive'')]\<rparr>] \<and>
           sent (conns (step P st' (PtyExit i)) ! w) =
             sent (conns st ! w) @
               (if activeWs st = Some w
                then [encode CONTROL_BYTE (json_type ''session-inactive''),
                      encode CONTROL_BYTE (json_type ''exit'')]
                else [encode CONTROL_BYTE (json_type ''session-inactive'')])"
proof -
  let ?r = "encode CONTROL_BYTE (json_type ''session-inactive'')"
  let ?x = "encode CONTROL_BYTE (json_type ''exit'')"
  let ?k = "killSession st"
  let ?st' = "sendControl ?k w (json_type ''session-inactive'')"
  have om: "on_message P sp st w (CONTROL_BYTE # body) = Inr ?st'"
    using assms by (simp add: on_message_control control_body_close)
  have cur: "currentPty ?st' = None" by simp
  have pt: "ptys ?st' = (ptys st)[i := (ptys st ! i)\<lparr>killed := True\<rparr>]"
    using assms by (simp add: killSession_running)
  have kl: "killed (ptys ?st' ! i) \<and> \<not> exited (ptys ?st' ! i)" using assms pt by simp
  have cn: "conns ?st' = (conns st)[w := (conns st ! w)\<lparr>sent := sent (conns st ! w) @ [?r]\<rparr>]"
    using assms by (simp add: conns_sendControl_open)
  have aw: "activeWs ?st' = activeWs st" by simp
  have open': "readyState (conns ?st' ! w) = OPEN" using assms by simp
  have snt: "sent (conns ?st' ! w) = sent (conns st ! w) @ [?r]" using assms cn by simp
  let ?st1 = "?st'\<lparr>ptys := (ptys ?st')[i := (ptys ?st' ! i)\<lparr>exited := True\<rparr>],
                    currentPty := None\<rparr>"
  have len: "i < length (ptys ?st')" using assms pt by simp
  have "step P ?st' (PtyExit i) =
      (case activeWs ?st' of
         Some a \<Rightarrow> sendControl ?st1 a (json_type ''exit'') | None \<Rightarrow> ?st1)"
    using kl by (intro step_PtyExit_live [OF len]) blast
  then have ex: "step P ?st' (PtyExit i) =
      (case activeWs st of
         Some a \<Rightarrow> sendControl ?st1 a (json_type ''exit'') | None \<Rightarrow> ?st1)"
    by (simp only: aw)
  have later: "sent (conns (step P ?st' (PtyExit i)) ! w) =
             sent (conns st ! w) @ (if activeWs st = Some w then [?r, ?x] else [?r])"
  proof (cases "activeWs st")
    case None
    then show ?thesis using ex snt by (simp del: step.simps)
  next
    case (Some a)
    show ?thesis
    proof (cases "a = w")
      case True
      have "w < length (conns ?st1)" using assms by simp
      moreover have "readyState (conns ?st1 ! w) = OPEN" using open' by simp
      ultimately have "sent (conns (sendControl ?st1 w (json_type ''exit'')) ! w) =
          sent (conns ?st1 ! w) @ [?x]"
        by (rule sent_sendControl_open)
      then show ?thesis using ex Some True snt by (simp del: step.simps)
    next
      case False
      then have "conns (sendControl ?st1 a (json_type ''exit'')) ! w = conns ?st1 ! w"
        by (simp add: conns_sendControl_other)
      then show ?thesis using ex Some False snt by (simp del: step.simps)
    qed
  qed
  show ?thesis using om cur kl cn later by blast
qed

theorem close_reply_and_later_exit_witness:
  "currentPty running = Some 0 \<and> readyState (conns running ! 0) = OPEN \<and>
   \<not> exited (ptys running ! 0) \<and> activeWs running = Some 0 \<and>
   (\<exists>st'. on_message JSON_parse_table None running 0 (control_message ''close'') = Inr st' \<and>
      currentPty st' = None \<and> killed (ptys st' ! 0) \<and>
      sent (conns st' ! 0) = sent (conns running ! 0) @ [control_message ''session-inactive''] \<and>
      sent (conns (step JSON_parse_table st' (PtyExit 0)) ! 0) =
        sent (conns running ! 0) @
          [control_message ''session-inactive'', control_message ''exit''])"
proof -
  have h: "0 < length (conns running)" "readyState (conns running ! 0) = OPEN"
    "currentPty running = Some 0" "0 < length (ptys running)" "\<not> exited (ptys running ! 0)"
    by (simp_all add: running_eq new_pty_def)
  have a: "activeWs running = Some 0" by (simp add: running_eq)
  have p: "properties (JObj [(''type'', JStr ''close'')]) =
             Inr (own_property [(''type'', JStr ''close'')])"
    by simp
  have g: "own_property [(''type'', JStr ''close'')] ''type'' = JStr ''close''"
    by (simp add: own_property_def)
  from close_reply_and_later_exit [where st = running and w = 0 and i = 0
      and P = JSON_parse_table and body = "json_type ''close''"
      and msg = "JObj [(''type'', JStr ''close'')]"
      and get = "own_property [(''type'', JStr ''close'')]" and sp = None,
      OF h parse_samples(2) p g]
  obtain st' where s:
    "on_message JSON_parse_table None running 0 (CONTROL_BYTE # json_type ''close'') = Inr st'"
    "currentPty st' = None" "killed (ptys st' ! 0)"
    "conns st' = (conns running)[0 := (conns running ! 0)\<lparr>sent := sent (conns running ! 0) @
              [encode CONTROL_BYTE (json_type ''session-inactive'')]\<rparr>]"
    "sent (conns (step JSON_parse_table st' (PtyExit 0)) ! 0) =
             sent (conns running ! 0) @
               (if activeWs running = Some 0
                then [encode CONTROL_BYTE (json_type ''session-inactive''),
                      encode CONTROL_BYTE (json_type ''exit'')]
                else [encode CONTROL_BYTE (json_type ''session-inactive'')])"
    by blast
  from s(4) h(1) have 4: "sent (conns st' ! 0) =
      sent (conns running ! 0) @ [control_message ''session-inactive'']"
    by (simp add: control_message_eq)
  from s(5) a have 5: "sent (conns (step JSON_parse_table st' (PtyExit 0)) ! 0) =
        sent (conns running ! 0) @
          [control_message ''session-inactive'', control_message ''exit'']"
    by (simp add: control_message_eq del: step.simps)
  show ?thesis unfolding control_message_def [of "''close''"]
    using h a s(1-3) 4 5 by blast
qed

subsection \<open>Decoding text\<close>
















lemma toString_ill_formed: "toString [0xFF] = [0xEF, 0xBF, 0xBD]"
  by (simp add: toString_def utf8_lead_def REPLACEMENT_def)

subsection \<open>Input and resizing\<close>










subsection \<open>Malformed and unknown messages\<close>

text \<open>
  C8. The message handler returns normally on every message: no exception leaves it. On
  the empty message it returns the state it was given. So it does on a control frame
  whose payload \<^verbatim>\<open>JSON.parse\<close> rejects, on one that parses to \<^verbatim>\<open>null\<close> (reading
  \<^verbatim>\<open>msg.type\<close> throws inside the \<^verbatim>\<open>try\<close>), and on one whose \<^verbatim>\<open>type\<close> is none of
  \<^verbatim>\<open>start\<close>, \<^verbatim>\<open>close\<close> and \<^verbatim>\<open>resize\<close>: nothing is sent, the socket stays as it was
  and the session is untouched.
\<close>

theorem message_handler_never_throws:
  "(\<exists>st'. on_message P sp st w raw = Inr st') \<and>
   on_message P sp st w [] = Inr st \<and>
   (P (toString body) = Inl e \<longrightarrow> on_message P sp st w (CONTROL_BYTE # body) = Inr st) \<and>
   (P (toString body) = Inr msg \<and> properties msg = Inl e \<longrightarrow>
      on_message P sp st w (CONTROL_BYTE # body) = Inr st) \<and>
   (P (toString body) = Inr msg \<and> properties msg = Inr get \<and>
    get ''type'' \<noteq> JStr ''start'' \<and> get ''type'' \<noteq> JStr ''close'' \<and>
    get ''type'' \<noteq> JStr ''resize'' \<longrightarrow>
      on_message P sp st w (CONTROL_BYTE # body) = Inr st)"
  by (simp add: on_message_total on_message_empty on_message_control control_body_throws
        control_body_unknown)

theorem message_handler_never_throws_witness:
  "on_message JSON_parse_table None running 0 [] = Inr running \<and>
   JSON_parse_table (toString (ascii ''not valid json{'')) = Inl SyntaxError \<and>
   on_message JSON_parse_table None running 0 (CONTROL_BYTE # ascii ''not valid json{'') =
     Inr running \<and>
   on_message JSON_parse_table None running 0 (CONTROL_BYTE # ascii ''null'') = Inr running \<and>
   on_message JSON_parse_table None running 0 (control_message ''ping'') = Inr running"
proof -
  have p: "properties (JObj [(''type'', JStr ''ping'')]) =
             Inr (own_property [(''type'', JStr ''ping'')])"
    by simp
  have g: "own_property [(''type'', JStr ''ping'')] ''type'' \<noteq> JStr ''start''"
    "own_property [(''type'', JStr ''ping'')] ''type'' \<noteq> JStr ''close''"
    "own_property [(''type'', JStr ''ping'')] ''type'' \<noteq> JStr ''resize''"
    by (simp_all add: own_property_def)
  have n: "properties JNull = Inl TypeError" by simp
  note t = message_handler_never_throws [where P = JSON_parse_table and sp = None
      and st = running and w = 0 and body = "ascii ''not valid json{''" and e = SyntaxError]
  note u = message_handler_never_throws [where P = JSON_parse_table and sp = None
      and st = running and w = 0 and body = "ascii ''null''" and msg = JNull and e = TypeError]
  note v = message_handler_never_throws [where P = JSON_parse_table and sp = None
      and st = running and w = 0 and body = "json_type ''ping''"
      and msg = "JObj [(''type'', JStr ''ping'')]"
      and get = "own_property [(''type'', JStr ''ping'')]"]
  from t have 1: "on_message JSON_parse_table None running 0 [] = Inr running" by blast
  from t parse_samples(5)
  have 2: "on_message JSON_parse_table None running 0
      (CONTROL_BYTE # ascii ''not valid json{'') = Inr running"
    by blast
  from u parse_samples(4) n
  have 3: "on_message JSON_parse_table None running 0 (CONTROL_BYTE # ascii ''null'') =
      Inr running"
    by blast
  from v parse_samples(3) p g
  have 4: "on_message JSON_parse_table None running 0 (CONTROL_BYTE # json_type ''ping'') =
      Inr running"
    by blast
  show ?thesis unfolding control_message_def using 1 2 3 4 parse_samples(5) by blast
qed

subsection \<open>A spawn that fails\<close>

lemma two_clients_eq:
  "two_clients =
     \<lparr>currentPty = None, activeWs = Some 1, ptys = [],
      conns = [\<lparr>readyState = OPEN, sent = [control_message ''session-inactive'']\<rparr>,
               \<lparr>readyState = OPEN, sent = [control_message ''session-inactive'']\<rparr>]\<rparr>"
  by code_simp

text \<open>
  C10, as stated, fails. Two clients are connected, the second being the active
  connection and the first still open. The first sends \<^verbatim>\<open>start\<close> and \<^verbatim>\<open>pty.spawn\<close>
  throws: the \<^verbatim>\<open>catch\<close> of \<open>spawnSession\<close> sends \<^verbatim>\<open>exit\<close> to the active
  connection and the router replies \<^verbatim>\<open>exit\<close> to the sender, so the active connection
  receives one \<^verbatim>\<open>exit\<close> frame for the request, not two.
\<close>

theorem superseded_start_counterexample:
  "activeWs two_clients = Some 1 \<and>
   map sent (conns (step JSON_parse_table two_clients
                      (Message 0 (control_message ''start'') None))) =
     [[control_message ''session-inactive'', control_message ''exit''],
      [control_message ''session-inactive'', control_message ''exit'']]"
  by code_simp

text \<open>
  C10, amended. When an open connection sends \<^verbatim>\<open>start\<close> while no session exists and
  \<^verbatim>\<open>pty.spawn\<close> throws, no PTY handle is created and the session stays absent. If the
  sender is the active connection, it receives exactly two \<^verbatim>\<open>exit\<close> control frames
  for the request (the first from the \<^verbatim>\<open>catch\<close> of \<open>spawnSession\<close>, the second as
  the reply to \<^verbatim>\<open>start\<close>). If it is not, it receives exactly one, the reply, and the
  active connection, if there is one and it is open, receives exactly one, from the
  \<^verbatim>\<open>catch\<close>. No other socket is sent anything.
\<close>

theorem spawn_failure_exit_frames:
  assumes "currentPty st = None" "w < length (conns st)" "readyState (conns st ! w) = OPEN"
    "P (toString body) = Inr msg" "properties msg = Inr get" "get ''type'' = JStr ''start''"
  shows "\<exists>st'. on_message P None st w (CONTROL_BYTE # body) = Inr st' \<and>
           currentPty st' = None \<and> ptys st' = ptys st \<and> activeWs st' = activeWs st \<and>
           sent (conns st' ! w) =
             sent (conns st ! w) @
               (if activeWs st = Some w
                then [encode CONTROL_BYTE (json_type ''exit''),
                      encode CONTROL_BYTE (json_type ''exit'')]
                else [encode CONTROL_BYTE (json_type ''exit'')]) \<and>
           (activeWs st = Some a \<and> a \<noteq> w \<and> a < length (conns st) \<longrightarrow>
              sent (conns st' ! a) =
                sent (conns st ! a) @
                  (if readyState (conns st ! a) = OPEN
                   then [encode CONTROL_BYTE (json_type ''exit'')] else [])) \<and>
           (v \<noteq> w \<and> activeWs st \<noteq> Some v \<longrightarrow> conns st' ! v = conns st ! v)"
proof -
  let ?x = "encode CONTROL_BYTE (json_type ''exit'')"
  let ?s1 = "spawnSession None st"
  let ?s2 = "sendControl ?s1 w (json_type ''exit'')"
  have s1: "?s1 = (case activeWs st of
                     Some a \<Rightarrow> sendControl st a (json_type ''exit'') | None \<Rightarrow> st)"
    using assms by (simp add: spawnSession_def)
  have cur: "currentPty ?s1 = None" and pt: "ptys ?s1 = ptys st"
    and aw: "activeWs ?s1 = activeWs st" and len: "length (conns ?s1) = length (conns st)"
    using assms by (simp_all add: s1 split: option.splits)
  have rs: "readyState (conns ?s1 ! w) = OPEN"
    using assms by (simp add: s1 split: option.splits)
  have om: "on_message P None st w (CONTROL_BYTE # body) = Inr ?s2"
    using assms cur by (simp add: on_message_control control_body_start)
  have w2: "sent (conns ?s2 ! w) = sent (conns ?s1 ! w) @ [?x]"
    using assms len rs by (intro sent_sendControl_open) simp_all
  have w1: "sent (conns ?s1 ! w) =
              sent (conns st ! w) @ (if activeWs st = Some w then [?x] else [])"
  proof (cases "activeWs st")
    case None
    then show ?thesis by (simp add: s1)
  next
    case (Some a)
    then show ?thesis using assms
      by (cases "a = w") (simp_all add: s1 sent_sendControl_open conns_sendControl_other)
  qed
  have sw: "sent (conns ?s2 ! w) =
              sent (conns st ! w) @ (if activeWs st = Some w then [?x, ?x] else [?x])"
    using w1 w2 by simp
  have sa: "sent (conns ?s2 ! a) =
              sent (conns st ! a) @ (if readyState (conns st ! a) = OPEN then [?x] else [])"
    if "activeWs st = Some a" "a \<noteq> w" "a < length (conns st)"
  proof -
    have "conns ?s2 ! a = conns ?s1 ! a" using that by (simp add: conns_sendControl_other)
    moreover have "sent (conns ?s1 ! a) =
        sent (conns st ! a) @ (if readyState (conns st ! a) = OPEN then [?x] else [])"
      using that by (simp add: s1 sent_sendControl_open) (simp add: sendControl_def)
    ultimately show ?thesis by simp
  qed
  have sv: "conns ?s2 ! v = conns st ! v" if "v \<noteq> w" "activeWs st \<noteq> Some v"
  proof -
    have "conns ?s2 ! v = conns ?s1 ! v" using that by (simp add: conns_sendControl_other)
    moreover have "conns ?s1 ! v = conns st ! v"
      using that by (cases "activeWs st") (simp_all add: s1 conns_sendControl_other)
    ultimately show ?thesis by simp
  qed
  have "currentPty ?s2 = None \<and> ptys ?s2 = ptys st \<and> activeWs ?s2 = activeWs st"
    using cur pt aw by simp
  with om sw sa sv show ?thesis by blast
qed

theorem spawn_failure_exit_frames_witness:
  "currentPty idle = None \<and> activeWs idle = Some 0 \<and> readyState (conns idle ! 0) = OPEN \<and>
   (\<exists>st'. on_message JSON_parse_table None idle 0 (control_message ''start'') = Inr st' \<and>
      sent (conns st' ! 0) =
        [control_message ''session-inactive'', control_message ''exit'',
         control_message ''exit''] \<and>
      currentPty st' = None \<and> ptys st' = []) \<and>
   currentPty two_clients = None \<and> activeWs two_clients = Some 1 \<and>
   readyState (conns two_clients ! 0) = OPEN \<and> readyState (conns two_clients ! 1) = OPEN \<and>
   (\<exists>st'. on_message JSON_parse_table None two_clients 0 (control_message ''start'') = Inr st' \<and>
      sent (conns st' ! 0) = [control_message ''session-inactive'', control_message ''exit''] \<and>
      sent (conns st' ! 1) = [control_message ''session-inactive'', control_message ''exit''] \<and>
      currentPty st' = None)"
proof -
  let ?x = "encode CONTROL_BYTE (json_type ''exit'')"
  have h: "currentPty idle = None" "0 < length (conns idle)" "readyState (conns idle ! 0) = OPEN"
    by (simp_all add: idle_eq)
  have ha: "activeWs idle = Some 0" by (simp add: idle_eq)
  have s: "sent (conns idle ! 0) = [control_message ''session-inactive'']" "ptys idle = []"
    by (simp_all add: idle_eq)
  have k: "currentPty two_clients = None" "0 < length (conns two_clients)"
    "readyState (conns two_clients ! 0) = OPEN"
    by (simp_all add: two_clients_eq)
  have ka: "activeWs two_clients = Some 1" "1 < length (conns two_clients)"
    "readyState (conns two_clients ! 1) = OPEN"
    "sent (conns two_clients ! 0) = [control_message ''session-inactive'']"
    "sent (conns two_clients ! 1) = [control_message ''session-inactive'']"
    by (simp_all add: two_clients_eq)
  have p: "properties (JObj [(''type'', JStr ''start'')]) =
             Inr (own_property [(''type'', JStr ''start'')])"
    by simp
  have g: "own_property [(''type'', JStr ''start'')] ''type'' = JStr ''start''"
    by (simp add: own_property_def)
  from spawn_failure_exit_frames [where st = idle and w = 0 and P = JSON_parse_table
      and body = "json_type ''start''" and msg = "JObj [(''type'', JStr ''start'')]"
      and get = "own_property [(''type'', JStr ''start'')]",
      OF h parse_samples(1) p g]
  obtain st' where t:
    "on_message JSON_parse_table None idle 0 (CONTROL_BYTE # json_type ''start'') = Inr st'"
    "currentPty st' = None" "ptys st' = ptys idle"
    "sent (conns st' ! 0) =
       sent (conns idle ! 0) @ (if activeWs idle = Some 0 then [?x, ?x] else [?x])"
    by blast
  from t(4) ha s(1) have 1: "sent (conns st' ! 0) =
        [control_message ''session-inactive'', control_message ''exit'',
         control_message ''exit'']"
    by (simp add: control_message_eq)
  from t(3) s(2) have 2: "ptys st' = []" by simp
  from spawn_failure_exit_frames [where st = two_clients and w = 0 and P = JSON_parse_table
      and body = "json_type ''start''" and msg = "JObj [(''type'', JStr ''start'')]"
      and get = "own_property [(''type'', JStr ''start'')]" and a = 1,
      OF k parse_samples(1) p g]
  obtain st2 where u:
    "on_message JSON_parse_table None two_clients 0 (CONTROL_BYTE # json_type ''start'') =
       Inr st2"
    "currentPty st2 = None"
    "sent (conns st2 ! 0) =
       sent (conns two_clients ! 0) @
         (if activeWs two_clients = Some 0 then [?x, ?x] else [?x])"
    "activeWs two_clients = Some 1 \<and> (1::nat) \<noteq> 0 \<and> 1 < length (conns two_clients) \<longrightarrow>
       sent (conns st2 ! 1) =
         sent (conns two_clients ! 1) @
           (if readyState (conns two_clients ! 1) = OPEN then [?x] else [])"
    by blast
  from u(3) ka have 3: "sent (conns st2 ! 0) =
      [control_message ''session-inactive'', control_message ''exit'']"
    by (simp add: control_message_eq)
  from u(4) ka have 4: "sent (conns st2 ! 1) =
      [control_message ''session-inactive'', control_message ''exit'']"
    by (simp add: control_message_eq)
  show ?thesis unfolding control_message_def [of "''start''"]
    using h ha t(1,2) 1 2 k(1,3) ka(1,3) u(1,2) 3 4 by blast
qed

section \<open>Properties of the client\<close>

lemma ws_onmessage_control:
  "ws_onmessage P c (CONTROL_BYTE # body) =
     (case client_control_body P c body of Inl e \<Rightarrow> Inr c | Inr c' \<Rightarrow> Inr c')"
  using kinds_distinct by (auto simp: ws_onmessage_def decode_def)

lemma client_control_body_inactive:
  assumes "P (TextDecoder_decode body) = Inr msg" "properties msg = Inr get"
    "get ''type'' = JStr ''session-inactive'' \<or> get ''type'' = JStr ''exit''"
  shows "client_control_body P c body = Inr (c\<lparr>sessionActive := False\<rparr>)"
  using assms by (auto simp: client_control_body_def)

lemma client_sendControl_keeps [simp]:
  "terminals (client_sendControl c s m) = terminals c"
  "observers (client_sendControl c s m) = observers c"
  "termRef (client_sendControl c s m) = termRef c"
  "resizeObserverRef (client_sendControl c s m) = resizeObserverRef c"
  by (simp_all add: client_sendControl_def client_send_def)

lemma client_sendControl_open:
  "readyState (sockets c ! s) = OPEN \<Longrightarrow>
   client_sendControl c s m =
     c\<lparr>sockets := (sockets c)[s := (sockets c ! s)\<lparr>sent := sent (sockets c ! s) @
                                     [encode CONTROL_BYTE m]\<rparr>]\<rparr>"
  by (simp add: client_sendControl_def client_send_def client_encode_cons encode_cons)

lemma handleStop_open:
  assumes "wsRef c = Some s" "readyState (sockets c ! s) = OPEN"
  shows "handleStop c =
     c\<lparr>sockets := (sockets c)[s := (sockets c ! s)\<lparr>sent := sent (sockets c ! s) @
                                     [encode CONTROL_BYTE (json_type ''close'')]\<rparr>],
       observers := (case resizeObserverRef c of
                       None \<Rightarrow> observers c
                     | Some r \<Rightarrow> (observers c)[r := \<lparr>disconnected = True\<rparr>]),
       resizeObserverRef := None,
       terminals := (case termRef c of
                       None \<Rightarrow> terminals c
                     | Some t \<Rightarrow> (terminals c)[t := (terminals c ! t)\<lparr>disposed := True\<rparr>]),
       termRef := None, fitAddonRef := None\<rparr>"
  using assms
  by (simp add: handleStop_def Let_def client_sendControl_open split: option.splits)

lemma handleStop_closed:
  "wsRef c = None \<or> (wsRef c = Some s \<and> readyState (sockets c ! s) \<noteq> OPEN) \<Longrightarrow>
   handleStop c = c"
  by (auto simp: handleStop_def)

lemma keeps_emulator_refl: "keeps_emulator c c"
  by (simp add: keeps_emulator_def)

lemma keeps_emulator_same:
  "terminals c' = terminals c \<Longrightarrow> observers c' = observers c \<Longrightarrow> keeps_emulator c c'"
  by (simp add: keeps_emulator_def)

lemma keeps_emulator_mount: "keeps_emulator c (ensureTerminal_mount c)"
  by (simp add: keeps_emulator_def ensureTerminal_mount_def nth_append)

lemma keeps_emulator_ensure: "keeps_emulator c (ensureTerminal c)"
  using keeps_emulator_mount [of c]
  by (simp add: ensureTerminal_def keeps_emulator_same keeps_emulator_refl)

lemma keeps_emulator_term_write: "keeps_emulator c (term_write c body)"
proof (cases "termRef c")
  case None
  then show ?thesis by (simp add: term_write_def keeps_emulator_refl)
next
  case (Some t)
  have "disposed (terminals (term_write c body) ! u) = disposed (terminals c ! u)"
    if "u < length (terminals c)" for u
    using that Some by (cases "u = t") (simp_all add: term_write_def)
  with Some show ?thesis by (simp add: keeps_emulator_def term_write_def)
qed

lemma keeps_emulator_control_body:
  "client_control_body P c body = Inr c' \<Longrightarrow> keeps_emulator c c'"
proof -
  assume a: "client_control_body P c body = Inr c'"
  have e: "keeps_emulator c (ensureTerminal (c\<lparr>sessionActive := True\<rparr>))"
    using keeps_emulator_ensure [of "c\<lparr>sessionActive := True\<rparr>"]
    by (simp add: keeps_emulator_def)
  from a show ?thesis
    unfolding client_control_body_def
    by (auto simp: e keeps_emulator_refl keeps_emulator_same split: sum.splits if_splits)
qed

lemma keeps_emulator_onmessage: "ws_onmessage P c raw = Inr c' \<Longrightarrow> keeps_emulator c c'"
  unfolding ws_onmessage_def
  by (auto simp: keeps_emulator_refl keeps_emulator_term_write
        dest: keeps_emulator_control_body split: option.splits sum.splits if_splits)

lemma keeps_emulator_step: "ev \<noteq> ClickStop \<Longrightarrow> keeps_emulator c (client_step P c ev)"
proof (cases ev)
  case (SocketMessage s raw)
  then show ?thesis
    by (auto simp: keeps_emulator_refl dest: keeps_emulator_onmessage split: sum.splits)
next
  case ModulesLoaded
  have "keeps_emulator c (ensureTerminal_resume (c\<lparr>importing := importing c - 1\<rparr>))"
    using keeps_emulator_mount [of "c\<lparr>importing := importing c - 1, termModulesRef := True\<rparr>"]
    by (simp add: keeps_emulator_def ensureTerminal_resume_def)
  with ModulesLoaded show ?thesis by (simp add: keeps_emulator_refl)
next
  case ClickStop
  moreover assume "ev \<noteq> ClickStop"
  ultimately show ?thesis by simp
qed (auto simp: keeps_emulator_def ws_onopen_def ws_onclose_def connect_def cleanup_def Let_def
       handleStart_def term_onData_def on_resize_observed_def client_send_def
       client_sendControl_def split: option.splits)

lemma dispose_only_by_stop:
  assumes "t < length (terminals c)" "\<not> disposed (terminals c ! t)"
    "disposed (terminals (client_step P c ev) ! t)"
  shows "ev = ClickStop \<and> termRef c = Some t \<and>
         (\<exists>s. wsRef c = Some s \<and> readyState (sockets c ! s) = OPEN)"
proof -
  have ev: "ev = ClickStop"
  proof (rule ccontr)
    assume "ev \<noteq> ClickStop"
    then have "keeps_emulator c (client_step P c ev)" by (rule keeps_emulator_step)
    with assms show False by (simp add: keeps_emulator_def)
  qed
  with assms have d: "disposed (terminals (handleStop c) ! t)" by simp
  have "handleStop c \<noteq> c" using d assms(2) by auto
  then obtain s where s: "wsRef c = Some s" "readyState (sockets c ! s) = OPEN"
    using handleStop_closed [of c] by (cases "wsRef c") auto
  have "termRef c = Some t"
  proof (cases "termRef c")
    case None
    with d s assms(2) show ?thesis by (simp add: handleStop_open)
  next
    case (Some u)
    with d s assms(1,2) show ?thesis
      by (cases "u = t") (simp_all add: handleStop_open)
  qed
  with ev s show ?thesis by blast
qed

lemma disconnect_only_by_stop:
  assumes "r < length (observers c)" "\<not> disconnected (observers c ! r)"
    "disconnected (observers (client_step P c ev) ! r)"
  shows "ev = ClickStop \<and> resizeObserverRef c = Some r"
proof -
  have ev: "ev = ClickStop"
  proof (rule ccontr)
    assume "ev \<noteq> ClickStop"
    then have "keeps_emulator c (client_step P c ev)" by (rule keeps_emulator_step)
    with assms show False by (simp add: keeps_emulator_def)
  qed
  with assms have d: "disconnected (observers (handleStop c) ! r)" by simp
  have "handleStop c \<noteq> c" using d assms(2) by auto
  then obtain s where s: "wsRef c = Some s" "readyState (sockets c ! s) = OPEN"
    using handleStop_closed [of c] by (cases "wsRef c") auto
  have "resizeObserverRef c = Some r"
  proof (cases "resizeObserverRef c")
    case None
    with d s assms(2) show ?thesis by (simp add: handleStop_open)
  next
    case (Some u)
    with d s assms(1,2) show ?thesis
      by (cases "u = r") (simp_all add: handleStop_open)
  qed
  with ev show ?thesis by blast
qed

lemma attached_eq:
  "attached =
     \<lparr>sessionActive = True, connected = True, termRef = Some 0, fitAddonRef = Some 0,
      resizeObserverRef = Some 0, wsRef = Some 0, termModulesRef = True, containerRef = True,
      effect_disposed = False, reconnectTimer = False, importing = 0,
      terminals = [\<lparr>disposed = False, received = []\<rparr>],
      observers = [\<lparr>disconnected = False\<rparr>],
      sockets = [\<lparr>readyState = OPEN, sent = []\<rparr>], dispatched = []\<rparr>"
  by code_simp

lemma parse_client_samples:
  "JSON_parse_table (TextDecoder_decode (json_type ''session-inactive'')) =
     Inr (JObj [(''type'', JStr ''session-inactive'')])"
  "JSON_parse_table (TextDecoder_decode (json_type ''exit'')) =
     Inr (JObj [(''type'', JStr ''exit'')])"
  by code_simp+

text \<open>
  C9, as stated, fails. A session is shown in an emulator and the socket drops; the stop
  button is still there, since \<^verbatim>\<open>sessionActive\<close> is still true. The user clicks it:
  \<^verbatim>\<open>handleStop\<close> returns at its guard, no \<^verbatim>\<open>close\<close> frame is sent, and the emulator
  and its observer are neither disposed nor let go of.
\<close>

theorem stop_while_offline_counterexample:
  "sessionActive offline \<and> termRef offline = Some 0 \<and> wsRef offline = None \<and>
   client_step JSON_parse_table offline ClickStop = offline \<and>
   \<not> disposed (terminals (client_step JSON_parse_table offline ClickStop) ! 0) \<and>
   \<not> disconnected (observers (client_step JSON_parse_table offline ClickStop) ! 0) \<and>
   sent (sockets (client_step JSON_parse_table offline ClickStop) ! 0) = []"
  by code_simp

text \<open>
  C9, amended. On the client, a \<^verbatim>\<open>session-inactive\<close> or \<^verbatim>\<open>exit\<close> control frame only
  sets \<^verbatim>\<open>sessionActive\<close> to false: no emulator and no observer is touched. A stop click
  while the panel's socket is open sends one \<^verbatim>\<open>close\<close> frame and then disconnects the
  observer, disposes the emulator and clears the three refs; a stop click while there is
  no socket, or the socket is not open, does nothing at all. No other event disposes an
  emulator or disconnects an observer: one that becomes disposed in a step was the
  current one, and the step was a stop click with the socket open.
\<close>

theorem stop_disposes_emulator:
  "(P (TextDecoder_decode body) = Inr msg \<and> properties msg = Inr get \<and>
    (get ''type'' = JStr ''session-inactive'' \<or> get ''type'' = JStr ''exit'') \<longrightarrow>
      ws_onmessage P c (CONTROL_BYTE # body) = Inr (c\<lparr>sessionActive := False\<rparr>)) \<and>
   (wsRef c = Some s \<and> readyState (sockets c ! s) = OPEN \<longrightarrow>
      handleStop c =
        c\<lparr>sockets := (sockets c)[s := (sockets c ! s)\<lparr>sent := sent (sockets c ! s) @
                                        [encode CONTROL_BYTE (json_type ''close'')]\<rparr>],
          observers := (case resizeObserverRef c of
                          None \<Rightarrow> observers c
                        | Some r \<Rightarrow> (observers c)[r := \<lparr>disconnected = True\<rparr>]),
          resizeObserverRef := None,
          terminals := (case termRef c of
                          None \<Rightarrow> terminals c
                        | Some t \<Rightarrow> (terminals c)[t := (terminals c ! t)\<lparr>disposed := True\<rparr>]),
          termRef := None, fitAddonRef := None\<rparr>) \<and>
   (wsRef c = None \<or> (wsRef c = Some s \<and> readyState (sockets c ! s) \<noteq> OPEN) \<longrightarrow>
      handleStop c = c) \<and>
   (t < length (terminals c) \<and> \<not> disposed (terminals c ! t) \<and>
    disposed (terminals (client_step P c ev) ! t) \<longrightarrow>
      ev = ClickStop \<and> termRef c = Some t \<and>
      (\<exists>s. wsRef c = Some s \<and> readyState (sockets c ! s) = OPEN)) \<and>
   (r < length (observers c) \<and> \<not> disconnected (observers c ! r) \<and>
    disconnected (observers (client_step P c ev) ! r) \<longrightarrow>
      ev = ClickStop \<and> resizeObserverRef c = Some r)"
proof -
  have a: "P (TextDecoder_decode body) = Inr msg \<and> properties msg = Inr get \<and>
      (get ''type'' = JStr ''session-inactive'' \<or> get ''type'' = JStr ''exit'') \<longrightarrow>
      ws_onmessage P c (CONTROL_BYTE # body) = Inr (c\<lparr>sessionActive := False\<rparr>)"
    by (simp add: ws_onmessage_control client_control_body_inactive)
  show ?thesis
    using a handleStop_open [of c s] handleStop_closed [of c s]
      dispose_only_by_stop [of t c P ev] disconnect_only_by_stop [of r c P ev]
    by blast
qed

theorem stop_disposes_emulator_witness:
  "ws_onmessage JSON_parse_table attached (control_message ''exit'') =
     Inr (attached\<lparr>sessionActive := False\<rparr>) \<and>
   ws_onmessage JSON_parse_table attached (control_message ''session-inactive'') =
     Inr (attached\<lparr>sessionActive := False\<rparr>) \<and>
   wsRef attached = Some 0 \<and> readyState (sockets attached ! 0) = OPEN \<and>
   sent (sockets (handleStop attached) ! 0) = [control_message ''close''] \<and>
   disposed (terminals (handleStop attached) ! 0) \<and>
   disconnected (observers (handleStop attached) ! 0) \<and>
   termRef (handleStop attached) = None \<and>
   wsRef offline = None \<and> handleStop offline = offline"
proof -
  have p: "properties (JObj [(''type'', JStr ''exit'')]) =
             Inr (own_property [(''type'', JStr ''exit'')])"
    "properties (JObj [(''type'', JStr ''session-inactive'')]) =
             Inr (own_property [(''type'', JStr ''session-inactive'')])"
    by simp_all
  have g: "own_property [(''type'', JStr ''exit'')] ''type'' = JStr ''exit''"
    "own_property [(''type'', JStr ''session-inactive'')] ''type'' = JStr ''session-inactive''"
    by (simp_all add: own_property_def)
  have h: "wsRef attached = Some 0" "readyState (sockets attached ! 0) = OPEN"
    by (simp_all add: attached_eq)
  have o: "wsRef offline = None" by code_simp
  note t = stop_disposes_emulator [where P = JSON_parse_table and c = attached
      and body = "json_type ''exit''" and msg = "JObj [(''type'', JStr ''exit'')]"
      and get = "own_property [(''type'', JStr ''exit'')]" and s = 0]
  note u = stop_disposes_emulator [where P = JSON_parse_table and c = attached
      and body = "json_type ''session-inactive''"
      and msg = "JObj [(''type'', JStr ''session-inactive'')]"
      and get = "own_property [(''type'', JStr ''session-inactive'')]" and s = 0]
  note v = stop_disposes_emulator [where c = offline and s = 0]
  from t parse_client_samples(2) p(1) g(1)
  have 1: "ws_onmessage JSON_parse_table attached (CONTROL_BYTE # json_type ''exit'') =
     Inr (attached\<lparr>sessionActive := False\<rparr>)"
    by blast
  from u parse_client_samples(1) p(2) g(2)
  have 2: "ws_onmessage JSON_parse_table attached (CONTROL_BYTE # json_type ''session-inactive'') =
     Inr (attached\<lparr>sessionActive := False\<rparr>)"
    by blast
  from t h have "handleStop attached =
        attached\<lparr>sockets := (sockets attached)[0 := (sockets attached ! 0)\<lparr>sent :=
                     sent (sockets attached ! 0) @ [encode CONTROL_BYTE (json_type ''close'')]\<rparr>],
          observers := (case resizeObserverRef attached of
                          None \<Rightarrow> observers attached
                        | Some r \<Rightarrow> (observers attached)[r := \<lparr>disconnected = True\<rparr>]),
          resizeObserverRef := None,
          terminals := (case termRef attached of
                          None \<Rightarrow> terminals attached
                        | Some t \<Rightarrow> (terminals attached)
                                      [t := (terminals attached ! t)\<lparr>disposed := True\<rparr>]),
          termRef := None, fitAddonRef := None\<rparr>"
    by blast
  then have 3: "sent (sockets (handleStop attached) ! 0) = [control_message ''close'']"
    "disposed (terminals (handleStop attached) ! 0)"
    "disconnected (observers (handleStop attached) ! 0)"
    "termRef (handleStop attached) = None"
    by (simp_all add: attached_eq control_message_eq)
  from v o have 4: "handleStop offline = offline" by blast
  show ?thesis unfolding control_message_def [of "''exit''"]
      control_message_def [of "''session-inactive''"]
    using 1 2 3 4 h o by blast
qed

end
